theory Spec2Isabelle
  imports Main "HOL-Library.Word"
begin

unbundle bit_operations_syntax

section \<open>Data model of the signing utilities\<close>

text \<open>
  The signing functions of the Go package \<^verbatim>\<open>utils\<close> are embedded function by
  function. A Go \<^verbatim>\<open>[]byte\<close> is a list of 8-bit words, a Go \<^verbatim>\<open>string\<close> a list
  of characters (bytes), a nilable pointer an \<open>option\<close>, and a
  \<^verbatim>\<open>(T, error)\<close> result a sum \<open>error + T\<close> with \<open>Inl\<close> for the error.
  Calls into libraries (formatting and parsing of floats, MessagePack, Keccak, the
  typed-data struct hash, ECDSA) are parameters of the functions that make them.
  Where two structs of the source share a field name, the fields of the wire form carry
  the prefix \<open>w\<close> and those of the signature the prefix \<open>sig\<close>.
\<close>

type_synonym byte = "8 word"

text \<open>Go \<^verbatim>\<open>error\<close> values: the message of \<^verbatim>\<open>fmt.Errorf\<close>, the errors of
  \<^verbatim>\<open>encoding/hex\<close> and \<^verbatim>\<open>strconv\<close>, an error handed back by a library
  the package calls, and a run-time panic.\<close>

datatype error =
    Errorf string
  | InvalidByteError char
  | ErrLength
  | ErrSyntax string
  | ErrRange string
  | LibraryError string
  | Panic string

type_synonym TIF = string

definition TIFAlo :: TIF where "TIFAlo = ''Alo''"
definition TIFIoc :: TIF where "TIFIoc = ''Ioc''"
definition TIFGtc :: TIF where "TIFGtc = ''Gtc''"

type_synonym TPSL = string

definition TPSLTp :: TPSL where "TPSLTp = ''tp''"
definition TPSLSl :: TPSL where "TPSLSl = ''sl''"

type_synonym Grouping = string

definition GroupingNA :: Grouping where "GroupingNA = ''na''"
definition GroupingNormalTpsl :: Grouping where "GroupingNormalTpsl = ''normalTpsl''"
definition GroupingPositionTpsl :: Grouping where "GroupingPositionTpsl = ''positionTpsl''"

record LimitOrderType =
  TIF :: TIF

text \<open>\<^verbatim>\<open>TriggerOrderType\<close> carries a \<^verbatim>\<open>float64\<close>; the type of floats is the
  parameter \<open>'f\<close>.\<close>

record 'f TriggerOrderType =
  TriggerPx :: 'f
  IsMarket :: bool
  TPSL :: TPSL

record TriggerOrderTypeWire =
  wTriggerPx :: string
  wIsMarket :: bool
  wTPSL :: TPSL

record 'f OrderType =
  Limit :: "LimitOrderType option"
  Trigger :: "'f TriggerOrderType option"

record OrderTypeWire =
  wLimit :: "LimitOrderType option"
  wTrigger :: "TriggerOrderTypeWire option"

record OrderWire =
  A :: int
  B :: bool
  P :: string
  S :: string
  R :: bool
  T :: OrderTypeWire
  C :: "string option"

text \<open>The dynamic values (\<^verbatim>\<open>interface{}\<close>) that the package stores in action maps
  and typed-data messages.\<close>

datatype anyval =
    VString string
  | VBool bool
  | VInt64 "64 word"
  | VUint64 "64 word"
  | VBig int
  | VOrderWires "OrderWire list"

text \<open>A Go \<^verbatim>\<open>map[string]interface{}\<close>: a finite partial function. It records which
  keys are present and their values, and nothing about the order of insertion.\<close>

type_synonym gomap = "string \<rightharpoonup> anyval"

record Signature =
  sigR :: string
  sigS :: string
  sigV :: byte

record PhantomAgent =
  Source :: string
  ConnectionID :: string

text \<open>The typed-data structures of \<^verbatim>\<open>apitypes\<close>, with the fields that the package
  fills in.\<close>

record apitypes_Type =
  Name :: string
  Type :: string

record TypedDataDomain =
  DomainName :: string
  Version :: string
  ChainId :: "int option"
  VerifyingContract :: string

record TypedData =
  Types :: "string \<rightharpoonup> apitypes_Type list"
  PrimaryType :: string
  Domain' :: TypedDataDomain
  Message :: gomap

section \<open>Hexadecimal encoding\<close>

definition hextable :: string where
  "hextable = ''0123456789abcdef''"

text \<open>\<^verbatim>\<open>hex.EncodeToString\<close>: two lower-case digits per byte, high nibble first.\<close>

fun EncodeToString :: "byte list \<Rightarrow> string" where
  "EncodeToString [] = []"
| "EncodeToString (v # src) =
     hextable ! unat (drop_bit 4 v) # hextable ! unat (v AND 0x0f) # EncodeToString src"

text \<open>\<^verbatim>\<open>hexutil.Encode\<close>: the digits behind the prefix \<^verbatim>\<open>0x\<close>.\<close>

definition hexutil_Encode :: "byte list \<Rightarrow> string" where
  "hexutil_Encode b = ''0x'' @ EncodeToString b"

text \<open>\<^verbatim>\<open>reverseHexTable\<close> of \<^verbatim>\<open>encoding/hex\<close>: the value of a digit in either
  case, \<open>None\<close> where the table holds \<^verbatim>\<open>0xff\<close>.\<close>

definition fromHexChar :: "char \<Rightarrow> byte option" where
  "fromHexChar c =
     (let n = (of_char c :: nat)
      in if 48 \<le> n \<and> n \<le> 57 then Some (of_nat (n - 48))
         else if 97 \<le> n \<and> n \<le> 102 then Some (of_nat (n - 97 + 10))
         else if 65 \<le> n \<and> n \<le> 70 then Some (of_nat (n - 65 + 10))
         else None)"

text \<open>\<^verbatim>\<open>hex.DecodeString\<close>: pairs of digits from the left; the first invalid
  character is reported, and an odd length is \<^verbatim>\<open>ErrLength\<close> unless the last
  character is itself invalid.\<close>

fun DecodeString :: "string \<Rightarrow> error + byte list" where
  "DecodeString [] = Inr []"
| "DecodeString [p] =
     (case fromHexChar p of None \<Rightarrow> Inl (InvalidByteError p) | Some a \<Rightarrow> Inl ErrLength)"
| "DecodeString (p # q # src) =
     (case fromHexChar p of
        None \<Rightarrow> Inl (InvalidByteError p)
      | Some a \<Rightarrow>
          (case fromHexChar q of
             None \<Rightarrow> Inl (InvalidByteError q)
           | Some b \<Rightarrow>
               (case DecodeString src of
                  Inl e \<Rightarrow> Inl e
                | Inr dst \<Rightarrow> Inr ((push_bit 4 a OR b) # dst))))"

definition TrimPrefix :: "string \<Rightarrow> string \<Rightarrow> string" where
  "TrimPrefix s pre = (if take (length pre) s = pre then drop (length pre) s else s)"

definition AddressToBytes :: "string \<Rightarrow> error + byte list" where
  "AddressToBytes address = DecodeString (TrimPrefix address ''0x'')"

section \<open>Phantom agent and L1 payload\<close>

definition ConstructPhantomAgent :: "byte list \<Rightarrow> bool \<Rightarrow> PhantomAgent" where
  "ConstructPhantomAgent hash isMainnet =
     (let source = (if isMainnet then ''a'' else ''b'')
      in \<lparr>Source = source, ConnectionID = hexutil_Encode hash\<rparr>)"

definition EIP712Domain_types :: "apitypes_Type list" where
  "EIP712Domain_types =
     [\<lparr>Name = ''name'', Type = ''string''\<rparr>,
      \<lparr>Name = ''version'', Type = ''string''\<rparr>,
      \<lparr>Name = ''chainId'', Type = ''uint256''\<rparr>,
      \<lparr>Name = ''verifyingContract'', Type = ''address''\<rparr>]"

definition zero_address :: string where
  "zero_address = ''0x0000000000000000000000000000000000000000''"

definition L1Payload :: "PhantomAgent \<Rightarrow> TypedData" where
  "L1Payload phantomAgent =
     \<lparr>Types = [''EIP712Domain'' \<mapsto> EIP712Domain_types,
               ''Agent'' \<mapsto> [\<lparr>Name = ''source'', Type = ''string''\<rparr>,
                              \<lparr>Name = ''connectionId'', Type = ''bytes32''\<rparr>]],
      PrimaryType = ''Agent'',
      Domain' = \<lparr>DomainName = ''Exchange'', Version = ''1'', ChainId = Some 1337,
                VerifyingContract = zero_address\<rparr>,
      Message = [''source'' \<mapsto> VString (Source phantomAgent),
                 ''connectionId'' \<mapsto> VString (ConnectionID phantomAgent)]\<rparr>"

section \<open>Order actions\<close>

definition OrderWiresToOrderAction :: "OrderWire list \<Rightarrow> string option \<Rightarrow> gomap" where
  "OrderWiresToOrderAction orderWires builder =
     (let action = [''type'' \<mapsto> VString ''order'',
                    ''orders'' \<mapsto> VOrderWires orderWires,
                    ''grouping'' \<mapsto> VString ''na'']
      in case builder of
           None \<Rightarrow> action
         | Some b \<Rightarrow> action(''builder'' \<mapsto> VString b))"

section \<open>Numeric codec\<close>

text \<open>The floating-point operations that \<^verbatim>\<open>FloatToWire\<close> calls belong to the Go
  run-time library and are parameters: formatting with \<^verbatim>\<open>%.8f\<close> and
  \<^verbatim>\<open>%f\<close>, \<^verbatim>\<open>strconv.ParseFloat\<close>, subtraction, \<^verbatim>\<open>math.Abs\<close>,
  the comparison \<^verbatim>\<open>>=\<close> and the constant \<^verbatim>\<open>1e-12\<close>.\<close>

record 'f float_lib =
  Sprintf_8f :: "'f \<Rightarrow> string"
  Sprintf_f :: "'f \<Rightarrow> string"
  ParseFloat :: "string \<Rightarrow> error + 'f"
  float_sub :: "'f \<Rightarrow> 'f \<Rightarrow> 'f"
  float_abs :: "'f \<Rightarrow> 'f"
  float_ge :: "'f \<Rightarrow> 'f \<Rightarrow> bool"
  const_1e_12 :: 'f

text \<open>\<^verbatim>\<open>strings.TrimRight\<close>: drop every trailing character that is in the cutset.\<close>

definition TrimRight :: "string \<Rightarrow> string \<Rightarrow> string" where
  "TrimRight s cutset = rev (dropWhile (\<lambda>c. c \<in> set cutset) (rev s))"

definition FloatToWire :: "'f float_lib \<Rightarrow> 'f \<Rightarrow> error + string" where
  "FloatToWire L x =
     (let rounded = Sprintf_8f L x
      in case ParseFloat L rounded of
           Inl err \<Rightarrow> Inl err
         | Inr parsedRounded \<Rightarrow>
             if float_ge L (float_abs L (float_sub L parsedRounded x)) (const_1e_12 L)
             then Inl (Errorf (''float_to_wire causes rounding: '' @ Sprintf_f L x))
             else
               (let rounded = (if rounded = ''-0.00000000'' then ''0.00000000'' else rounded);
                    trimmed = TrimRight rounded ''0'';
                    trimmed = TrimRight trimmed ''.'';
                    trimmed = (if trimmed = [] then ''0'' else trimmed)
                in Inr trimmed))"

definition OrderTypeToWire :: "'f float_lib \<Rightarrow> 'f OrderType \<Rightarrow> error + OrderTypeWire" where
  "OrderTypeToWire L orderType =
     (case Limit orderType of
        Some l \<Rightarrow> Inr \<lparr>wLimit = Some l, wTrigger = None\<rparr>
      | None \<Rightarrow>
          (case Trigger orderType of
             Some t \<Rightarrow>
               (case FloatToWire L (TriggerPx t) of
                  Inl err \<Rightarrow> Inl err
                | Inr triggerPxWire \<Rightarrow>
                    Inr \<lparr>wLimit = None,
                         wTrigger = Some \<lparr>wTriggerPx = triggerPxWire, wIsMarket = IsMarket t,
                                           wTPSL = TPSL t\<rparr>\<rparr>)
           | None \<Rightarrow> Inl (Errorf ''invalid order type'')))"

subsection \<open>Shapes of decimal strings\<close>

definition is_digit :: "char \<Rightarrow> bool" where
  "is_digit c \<longleftrightarrow> 48 \<le> (of_char c :: nat) \<and> (of_char c :: nat) \<le> 57"

definition strip_minus :: "string \<Rightarrow> string" where
  "strip_minus s = (case s of c # r \<Rightarrow> if c = CHR ''-'' then r else s | [] \<Rightarrow> s)"



subsection \<open>A decimal stand-in for the float library\<close>

text \<open>To run the codec on concrete inputs, the library parameter is instantiated with
  exact decimal arithmetic: an integer \<open>x\<close> stands for the number \<open>x / 10\<^sup>1\<^sup>2\<close>.
  Formatting rounds half to even, as the Go formatter does on the exact value.\<close>

fun digits_of :: "nat \<Rightarrow> string" where
  "digits_of n =
     (if n < 10 then [''0123456789'' ! n]
      else digits_of (n div 10) @ [''0123456789'' ! (n mod 10)])"

declare digits_of.simps [simp del]

definition round_half_even :: "nat \<Rightarrow> nat \<Rightarrow> nat" where
  "round_half_even a b =
     (let q = a div b; r = a mod b
      in if 2 * r > b \<or> (2 * r = b \<and> odd q) then q + 1 else q)"

definition dec_format :: "nat \<Rightarrow> int \<Rightarrow> string" where
  "dec_format prec x =
     (let r = round_half_even (nat \<bar>x\<bar>) (10 ^ (12 - prec));
          ip = digits_of (r div 10 ^ prec);
          fp = digits_of (r mod 10 ^ prec)
      in (if x < 0 then ''-'' else []) @ ip @ ''.'' @ replicate (prec - length fp) (CHR ''0'') @ fp)"

definition digits_value :: "string \<Rightarrow> nat" where
  "digits_value ds = foldl (\<lambda>a c. 10 * a + ((of_char c :: nat) - 48)) 0 ds"

definition dec_parse :: "string \<Rightarrow> error + int" where
  "dec_parse s =
     (let t = strip_minus s; ip = takeWhile is_digit t; r = dropWhile is_digit t;
          sign = (if t = s then 1 else - 1 :: int)
      in if ip = [] then Inl (ErrSyntax s)
         else case r of
                [] \<Rightarrow> Inr (sign * int (digits_value ip * 10 ^ 12))
              | c # fp \<Rightarrow>
                  if c = CHR ''.'' \<and> list_all is_digit fp \<and> length fp \<le> 12
                  then Inr (sign * int (digits_value ip * 10 ^ 12
                                        + digits_value fp * 10 ^ (12 - length fp)))
                  else Inl (ErrSyntax s))"

definition decimal_lib :: "int float_lib" where
  "decimal_lib =
     \<lparr>Sprintf_8f = dec_format 8, Sprintf_f = dec_format 6, ParseFloat = dec_parse,
      float_sub = (\<lambda>a b. a - b), float_abs = abs, float_ge = (\<lambda>a b. a \<ge> b),
      const_1e_12 = 1\<rparr>"

section \<open>Action hash\<close>

text \<open>The loop that writes a \<^verbatim>\<open>uint64\<close> into an 8-byte buffer:
  \<^verbatim>\<open>for i := 7; i >= 0; i-- { buf[i] = byte(n & 0xff); n >>= 8 }\<close>.
  The first argument counts the iterations left; the iteration with \<open>Suc i\<close> left
  writes index \<open>i\<close>.\<close>

fun fill_bytes :: "nat \<Rightarrow> 64 word \<Rightarrow> byte list \<Rightarrow> byte list" where
  "fill_bytes 0 n buf = buf"
| "fill_bytes (Suc i) n buf = fill_bytes i (drop_bit 8 n) (buf[i := ucast (n AND 0xff)])"

definition uint64_bytes :: "64 word \<Rightarrow> byte list" where
  "uint64_bytes n = fill_bytes 8 n (replicate 8 0)"

text \<open>\<^verbatim>\<open>ActionHash\<close>. \<open>Marshal\<close> is \<^verbatim>\<open>msgpack.Marshal\<close> and
  \<open>Keccak256\<close> the hash function (\<^verbatim>\<open>sha3.NewLegacyKeccak256\<close>, written to and
  summed once); both are parameters.\<close>

definition ActionHash ::
  "('a \<Rightarrow> error + byte list) \<Rightarrow> (byte list \<Rightarrow> byte list) \<Rightarrow> 'a \<Rightarrow> string option
     \<Rightarrow> 64 word \<Rightarrow> 64 word option \<Rightarrow> error + byte list" where
  "ActionHash Marshal Keccak256 action vaultAddress nonce expiresAfter =
     (case Marshal action of
        Inl err \<Rightarrow> Inl err
      | Inr data \<Rightarrow>
          (let data = data @ uint64_bytes nonce
           in case (case vaultAddress of
                      None \<Rightarrow> Inr (data @ [0x00])
                    | Some v \<Rightarrow>
                        (case AddressToBytes v of
                           Inl err \<Rightarrow> Inl err
                         | Inr vaultBytes \<Rightarrow> Inr ((data @ [0x01]) @ vaultBytes))) of
                Inl err \<Rightarrow> Inl err
              | Inr data \<Rightarrow>
                  (let data = (case expiresAfter of
                                 None \<Rightarrow> data
                               | Some expires \<Rightarrow> (data @ [0x00]) @ uint64_bytes expires)
                   in Inr (Keccak256 data))))"

section \<open>MessagePack encoding of a Go map\<close>

text \<open>The part of \<^verbatim>\<open>msgpack.Marshal\<close> (vmihailenco/msgpack v5, default encoder)
  that an action map exercises. The encoder writes the map header and then ranges over
  the Go map, writing each key and its value. The Go runtime fixes the order of that
  range anew at every \<^verbatim>\<open>range\<close> statement; it is the argument \<open>keys\<close> here, a
  listing of the keys of the map. Values the model does not cover are reported as a
  library error, never encoded.\<close>

definition be16 :: "nat \<Rightarrow> byte list" where
  "be16 l = [of_nat (l div 256), of_nat l]"

definition be32 :: "nat \<Rightarrow> byte list" where
  "be32 l = [of_nat (l div 16777216), of_nat (l div 65536), of_nat (l div 256), of_nat l]"

definition encodeStringLen :: "nat \<Rightarrow> byte list" where
  "encodeStringLen l =
     (if l < 32 then [0xa0 OR of_nat l]
      else if l < 256 then [0xd9, of_nat l]
      else if l \<le> 65535 then 0xda # be16 l
      else 0xdb # be32 l)"

definition EncodeString :: "string \<Rightarrow> byte list" where
  "EncodeString v = encodeStringLen (length v) @ map of_char v"

definition EncodeArrayLen :: "nat \<Rightarrow> byte list" where
  "EncodeArrayLen l =
     (if l < 16 then [0x90 OR of_nat l]
      else if l \<le> 65535 then 0xdc # be16 l
      else 0xdd # be32 l)"

definition EncodeMapLen :: "nat \<Rightarrow> byte list" where
  "EncodeMapLen l =
     (if l < 16 then [0x80 OR of_nat l]
      else if l \<le> 65535 then 0xde # be16 l
      else 0xdf # be32 l)"

fun encodeAll :: "('a \<Rightarrow> error + byte list) \<Rightarrow> 'a list \<Rightarrow> error + byte list" where
  "encodeAll enc [] = Inr []"
| "encodeAll enc (x # xs) =
     (case enc x of
        Inl err \<Rightarrow> Inl err
      | Inr b \<Rightarrow> (case encodeAll enc xs of Inl err \<Rightarrow> Inl err | Inr bs \<Rightarrow> Inr (b @ bs)))"

text \<open>\<open>encWire\<close> encodes one \<^verbatim>\<open>OrderWire\<close> struct (a parameter).\<close>

fun EncodeValue :: "(OrderWire \<Rightarrow> error + byte list) \<Rightarrow> anyval \<Rightarrow> error + byte list" where
  "EncodeValue encWire (VString v) = Inr (EncodeString v)"
| "EncodeValue encWire (VBool v) = Inr [if v then 0xc3 else 0xc2]"
| "EncodeValue encWire (VInt64 v) = Inr (0xd3 # uint64_bytes v)"
| "EncodeValue encWire (VUint64 v) = Inr (0xcf # uint64_bytes v)"
| "EncodeValue encWire (VOrderWires ws) =
     (case encodeAll encWire ws of
        Inl err \<Rightarrow> Inl err
      | Inr bs \<Rightarrow> Inr (EncodeArrayLen (length ws) @ bs))"
| "EncodeValue encWire (VBig v) = Inl (LibraryError ''msgpack: value outside the model'')"

definition EncodeMap ::
  "(OrderWire \<Rightarrow> error + byte list) \<Rightarrow> string list \<Rightarrow> gomap \<Rightarrow> error + byte list" where
  "EncodeMap encWire keys m =
     (case encodeAll (\<lambda>mk. case m mk of
                              None \<Rightarrow> Inl (Panic ''key not in map'')
                            | Some mv \<Rightarrow>
                                (case EncodeValue encWire mv of
                                   Inl err \<Rightarrow> Inl err
                                 | Inr b \<Rightarrow> Inr (EncodeString mk @ b))) keys of
        Inl err \<Rightarrow> Inl err
      | Inr bs \<Rightarrow> Inr (EncodeMapLen (length keys) @ bs))"

text \<open>What the Go runtime may choose as the order of a range over the map \<open>m\<close>:
  each key once.\<close>

definition range_order :: "gomap \<Rightarrow> string list \<Rightarrow> bool" where
  "range_order m keys \<longleftrightarrow> distinct keys \<and> set keys = dom m"

section \<open>Keccak-256\<close>

text \<open>A reference model of the hash function behind \<^verbatim>\<open>sha3.NewLegacyKeccak256\<close>:
  the Keccak-f[1600] permutation on 25 lanes of 64 bits (lane \<open>(x, y)\<close> at index
  \<open>x + 5 * y\<close>), the sponge with a rate of 136 bytes, the original Keccak padding
  (\<^verbatim>\<open>0x01\<close> ... \<^verbatim>\<open>0x80\<close>) and 32 bytes of output. The signing functions take
  the hash function as a parameter; this model is the instance used to run them on
  concrete inputs.\<close>

type_synonym lane = "64 word"

definition rotl64 :: "lane \<Rightarrow> nat \<Rightarrow> lane" where
  "rotl64 w n = push_bit n w OR drop_bit (64 - n) w"

definition keccak_RC :: "lane list" where
  "keccak_RC =
     [0x0000000000000001, 0x0000000000008082, 0x800000000000808A, 0x8000000080008000,
      0x000000000000808B, 0x0000000080000001, 0x8000000080008081, 0x8000000000008009,
      0x000000000000008A, 0x0000000000000088, 0x0000000080008009, 0x000000008000000A,
      0x000000008000808B, 0x800000000000008B, 0x8000000000008089, 0x8000000000008003,
      0x8000000000008002, 0x8000000000000080, 0x000000000000800A, 0x800000008000000A,
      0x8000000080008081, 0x8000000000008080, 0x0000000080000001, 0x8000000080008008]"

definition lane_index :: "nat list" where
  "lane_index = [0, 1, 2, 3, 4, 5, 6, 7, 8, 9, 10, 11, 12, 13, 14, 15, 16, 17, 18, 19, 20,
                 21, 22, 23, 24]"

definition pi_source :: "nat list" where
  "pi_source = [0, 6, 12, 18, 24, 3, 9, 10, 16, 22, 1, 7, 13, 19, 20, 4, 5, 11, 17, 23, 2, 8,
                14, 15, 21]"

definition rho_offset :: "nat list" where
  "rho_offset = [0, 44, 43, 21, 14, 28, 20, 3, 45, 61, 1, 6, 25, 8, 18, 27, 36, 10, 15, 56, 62,
                 55, 39, 41, 2]"

definition theta_C :: "lane list \<Rightarrow> lane list" where
  "theta_C a = map (\<lambda>x. a ! x XOR a ! (x + 5) XOR a ! (x + 10) XOR a ! (x + 15) XOR a ! (x + 20))
                 [0, 1, 2, 3, 4]"

definition theta_D :: "lane list \<Rightarrow> lane list" where
  "theta_D c = map (\<lambda>x. c ! ((x + 4) mod 5) XOR rotl64 (c ! ((x + 1) mod 5)) 1) [0, 1, 2, 3, 4]"

definition theta_apply :: "lane list \<Rightarrow> lane list \<Rightarrow> lane list" where
  "theta_apply a d = map (\<lambda>i. a ! i XOR d ! (i mod 5)) lane_index"

definition theta :: "lane list \<Rightarrow> lane list" where
  "theta a = theta_apply a (theta_D (theta_C a))"

definition rho_pi :: "lane list \<Rightarrow> lane list" where
  "rho_pi a = map (\<lambda>i. rotl64 (a ! (pi_source ! i)) (rho_offset ! i)) lane_index"

definition chi :: "lane list \<Rightarrow> lane list" where
  "chi b = map (\<lambda>i. b ! i XOR (NOT (b ! ((i mod 5 + 1) mod 5 + 5 * (i div 5)))
                               AND b ! ((i mod 5 + 2) mod 5 + 5 * (i div 5)))) lane_index"

definition iota :: "lane \<Rightarrow> lane list \<Rightarrow> lane list" where
  "iota rc a = (case a of [] \<Rightarrow> [] | a0 # r \<Rightarrow> (a0 XOR rc) # r)"

definition keccak_round :: "lane list \<Rightarrow> lane \<Rightarrow> lane list" where
  "keccak_round a rc = iota rc (chi (rho_pi (theta a)))"

definition keccak_f :: "lane list \<Rightarrow> lane list" where
  "keccak_f a = foldl keccak_round a keccak_RC"

fun lane_of_bytes :: "byte list \<Rightarrow> lane" where
  "lane_of_bytes [] = 0"
| "lane_of_bytes (b # bs) = ucast b OR push_bit 8 (lane_of_bytes bs)"

definition bytes_of_lane :: "lane \<Rightarrow> byte list" where
  "bytes_of_lane w = map (\<lambda>i. ucast (drop_bit (8 * i) w)) [0, 1, 2, 3, 4, 5, 6, 7]"

fun lanes_of_bytes :: "byte list \<Rightarrow> lane list" where
  "lanes_of_bytes (b0 # b1 # b2 # b3 # b4 # b5 # b6 # b7 # bs) =
     lane_of_bytes [b0, b1, b2, b3, b4, b5, b6, b7] # lanes_of_bytes bs"
| "lanes_of_bytes bs = []"

fun xor_lanes :: "lane list \<Rightarrow> lane list \<Rightarrow> lane list" where
  "xor_lanes (a # as) (l # ls) = (a XOR l) # xor_lanes as ls"
| "xor_lanes as ls = as"

definition absorb :: "lane list \<Rightarrow> byte list \<Rightarrow> lane list" where
  "absorb a block = keccak_f (xor_lanes a (lanes_of_bytes block))"

definition keccak_pad :: "byte list \<Rightarrow> byte list" where
  "keccak_pad data =
     (let q = 136 - length data mod 136
      in if q = 1 then data @ [0x81] else data @ [0x01] @ replicate (q - 2) 0 @ [0x80])"

function absorb_all :: "lane list \<Rightarrow> byte list \<Rightarrow> lane list" where
  "absorb_all a bs = (if bs = [] then a else absorb_all (absorb a (take 136 bs)) (drop 136 bs))"
  by pat_completeness auto
termination
  by (relation "measure (\<lambda>(a, bs). length bs)") auto

declare absorb_all.simps [simp del]

definition LegacyKeccak256 :: "byte list \<Rightarrow> byte list" where
  "LegacyKeccak256 data =
     concat (map bytes_of_lane (take 4 (absorb_all (replicate 25 0) (keccak_pad data))))"

section \<open>Typed-data signing\<close>

text \<open>The library calls of \<^verbatim>\<open>SignInner\<close> are parameters: the struct hash of
  \<^verbatim>\<open>apitypes.TypedData\<close>, \<^verbatim>\<open>crypto.Keccak256Hash\<close> and
  \<^verbatim>\<open>crypto.Sign\<close> over a private key of type \<open>'k\<close>.\<close>

record 'k crypto =
  HashStruct :: "TypedData \<Rightarrow> string \<Rightarrow> gomap \<Rightarrow> error + byte list"
  Keccak256Hash :: "byte list \<Rightarrow> byte list"
  Sign :: "byte list \<Rightarrow> 'k \<Rightarrow> error + byte list"

text \<open>\<^verbatim>\<open>TypedDataDomain.Map\<close>: the fields of the domain that are set.\<close>

definition Domain_Map :: "TypedDataDomain \<Rightarrow> gomap" where
  "Domain_Map d =
     (let m0 = Map.empty;
          m1 = (case ChainId d of None \<Rightarrow> m0 | Some c \<Rightarrow> m0(''chainId'' \<mapsto> VBig c));
          m2 = (if length (DomainName d) > 0 then m1(''name'' \<mapsto> VString (DomainName d)) else m1);
          m3 = (if length (Version d) > 0 then m2(''version'' \<mapsto> VString (Version d)) else m2);
          m4 = (if length (VerifyingContract d) > 0
                then m3(''verifyingContract'' \<mapsto> VString (VerifyingContract d)) else m3)
      in m4)"

text \<open>\<^verbatim>\<open>SignInner\<close>. A signature shorter than 65 bytes makes
  \<^verbatim>\<open>signature[64]\<close> panic.\<close>

definition SignInner :: "'k crypto \<Rightarrow> 'k \<Rightarrow> TypedData \<Rightarrow> error + Signature" where
  "SignInner L privateKey data =
     (case HashStruct L data ''EIP712Domain'' (Domain_Map (Domain' data)) of
        Inl err \<Rightarrow> Inl err
      | Inr domainSeparator \<Rightarrow>
          (case HashStruct L data (PrimaryType data) (Message data) of
             Inl err \<Rightarrow> Inl err
           | Inr typedDataHash \<Rightarrow>
               (let rawData = [0x19, 0x01] @ (domainSeparator @ typedDataHash);
                    hash = Keccak256Hash L rawData
                in case Sign L hash privateKey of
                     Inl err \<Rightarrow> Inl err
                   | Inr signature \<Rightarrow>
                       if length signature < 65 then Inl (Panic ''index out of range'')
                       else Inr \<lparr>sigR = hexutil_Encode (take 32 signature),
                                 sigS = hexutil_Encode (take 32 (drop 32 signature)),
                                 sigV = signature ! 64 + 27\<rparr>)))"

subsection \<open>Parsing the chain id\<close>

text \<open>\<^verbatim>\<open>strconv.ParseInt(s, 0, 64)\<close>, after the Go standard library: an optional
  sign, a base prefix (\<^verbatim>\<open>0b\<close>, \<^verbatim>\<open>0o\<close>, \<^verbatim>\<open>0x\<close>, or a leading
  \<^verbatim>\<open>0\<close> for octal), digits with underscores between them, and the range of a
  signed 64-bit integer.\<close>

definition lower :: "char \<Rightarrow> nat" where
  "lower c = (of_char c :: nat) OR 32"

fun underscoreOK_loop :: "bool \<Rightarrow> char \<Rightarrow> string \<Rightarrow> bool" where
  "underscoreOK_loop hex saw [] = (saw \<noteq> CHR ''_'')"
| "underscoreOK_loop hex saw (c # s) =
     (if is_digit c \<or> (hex \<and> 97 \<le> lower c \<and> lower c \<le> 102)
      then underscoreOK_loop hex (CHR ''0'') s
      else if c = CHR ''_''
      then (if saw \<noteq> CHR ''0'' then False else underscoreOK_loop hex (CHR ''_'') s)
      else if saw = CHR ''_'' then False
      else underscoreOK_loop hex (CHR ''!'') s)"

definition underscoreOK :: "string \<Rightarrow> bool" where
  "underscoreOK s0 =
     (let s = (case s0 of c # r \<Rightarrow> if c = CHR ''-'' \<or> c = CHR ''+'' then r else s0 | [] \<Rightarrow> s0)
      in case s of
           c0 # c1 # r \<Rightarrow>
             if c0 = CHR ''0'' \<and> (lower c1 = 98 \<or> lower c1 = 111 \<or> lower c1 = 120)
             then underscoreOK_loop (lower c1 = 120) (CHR ''0'') r
             else underscoreOK_loop False (CHR ''^'') s
         | _ \<Rightarrow> underscoreOK_loop False (CHR ''^'') s)"

text \<open>The digit loop of \<^verbatim>\<open>ParseUint\<close> for base 0 and 64 bits: the
  accumulator \<open>n\<close>, and whether an underscore was seen.\<close>

fun ParseUint_loop :: "string \<Rightarrow> nat \<Rightarrow> string \<Rightarrow> nat \<Rightarrow> bool \<Rightarrow> error + (nat \<times> bool)" where
  "ParseUint_loop s0 base [] n underscores = Inr (n, underscores)"
| "ParseUint_loop s0 base (c # s) n underscores =
     (if c = CHR ''_'' then ParseUint_loop s0 base s n True
      else if \<not> (is_digit c \<or> (97 \<le> lower c \<and> lower c \<le> 122)) then Inl (ErrSyntax s0)
      else
        (let d = (if is_digit c then (of_char c :: nat) - 48 else lower c - 97 + 10)
         in if d \<ge> base then Inl (ErrSyntax s0)
            else if n \<ge> (2 ^ 64 - 1) div base + 1 then Inl (ErrRange s0)
            else if n * base + d > 2 ^ 64 - 1 then Inl (ErrRange s0)
            else ParseUint_loop s0 base s (n * base + d) underscores))"

definition ParseUint0 :: "string \<Rightarrow> error + nat" where
  "ParseUint0 s =
     (if s = [] then Inl (ErrSyntax s)
      else
        (let (base, digits) =
               (if hd s = CHR ''0'' then
                  (if length s \<ge> 3 \<and> lower (s ! 1) = 98 then (2, drop 2 s)
                   else if length s \<ge> 3 \<and> lower (s ! 1) = 111 then (8, drop 2 s)
                   else if length s \<ge> 3 \<and> lower (s ! 1) = 120 then (16, drop 2 s)
                   else (8, drop 1 s))
                else (10, s))
         in case ParseUint_loop s base digits 0 False of
              Inl err \<Rightarrow> Inl err
            | Inr (n, underscores) \<Rightarrow>
                if underscores \<and> \<not> underscoreOK s then Inl (ErrSyntax s) else Inr n))"

definition ParseInt0 :: "string \<Rightarrow> error + int" where
  "ParseInt0 s0 =
     (if s0 = [] then Inl (ErrSyntax s0)
      else
        (let neg = (hd s0 = CHR ''-'');
             s = (if hd s0 = CHR ''+'' \<or> hd s0 = CHR ''-'' then tl s0 else s0)
         in case ParseUint0 s of
              Inl (ErrRange _) \<Rightarrow> Inl (ErrRange s0)
            | Inl _ \<Rightarrow> Inl (ErrSyntax s0)
            | Inr un \<Rightarrow>
                if \<not> neg \<and> un \<ge> 2 ^ 63 then Inl (ErrRange s0)
                else if neg \<and> un > 2 ^ 63 then Inl (ErrRange s0)
                else Inr (if neg then - int un else int un)))"

subsection \<open>Payloads and the signing entry points\<close>

definition UserSignedPayload ::
  "string \<Rightarrow> apitypes_Type list \<Rightarrow> gomap \<Rightarrow> error + TypedData" where
  "UserSignedPayload primaryType payloadTypes action =
     (case action ''signatureChainId'' of
        Some (VString chainIDStr) \<Rightarrow>
          (case ParseInt0 chainIDStr of
             Inl err \<Rightarrow> Inl err
           | Inr chainID \<Rightarrow>
               Inr \<lparr>Types = [''EIP712Domain'' \<mapsto> EIP712Domain_types, primaryType \<mapsto> payloadTypes],
                     PrimaryType = primaryType,
                     Domain' = \<lparr>DomainName = ''HyperliquidSignTransaction'', Version = ''1'',
                               ChainId = Some chainID, VerifyingContract = zero_address\<rparr>,
                     Message = action\<rparr>)
      | _ \<Rightarrow> Inl (Errorf ''signatureChainId not found or not string''))"

definition SignL1Action ::
  "('a \<Rightarrow> error + byte list) \<Rightarrow> (byte list \<Rightarrow> byte list) \<Rightarrow> 'k crypto \<Rightarrow> 'k \<Rightarrow> 'a
     \<Rightarrow> string option \<Rightarrow> 64 word \<Rightarrow> 64 word option \<Rightarrow> bool \<Rightarrow> error + Signature" where
  "SignL1Action Marshal Keccak256 L privateKey action activePool nonce expiresAfter isMainnet =
     (case ActionHash Marshal Keccak256 action activePool nonce expiresAfter of
        Inl err \<Rightarrow> Inl err
      | Inr hash \<Rightarrow>
          (let phantomAgent = ConstructPhantomAgent hash isMainnet;
               data = L1Payload phantomAgent
           in SignInner L privateKey data))"

text \<open>\<^verbatim>\<open>SignUserSignedAction\<close> assigns to two keys of the map it is given. A Go
  map is a reference, so the caller sees the assignments: the model returns the map as
  the caller holds it after the call, next to the result.\<close>

definition SignUserSignedAction ::
  "'k crypto \<Rightarrow> 'k \<Rightarrow> gomap \<Rightarrow> apitypes_Type list \<Rightarrow> string \<Rightarrow> bool
     \<Rightarrow> gomap \<times> (error + Signature)" where
  "SignUserSignedAction L privateKey action payloadTypes primaryType isMainnet =
     (let action = action(''signatureChainId'' \<mapsto> VString ''0x66eee'');
          action = (if isMainnet then action(''hyperliquidChain'' \<mapsto> VString ''Mainnet'')
                    else action(''hyperliquidChain'' \<mapsto> VString ''Testnet''))
      in (action,
          case UserSignedPayload primaryType payloadTypes action of
            Inl err \<Rightarrow> Inl err
          | Inr data \<Rightarrow> SignInner L privateKey data))"

text \<open>The field schemas of the user-signed actions, and the entry point of each
  kind.\<close>

definition USDSendSignTypes :: "apitypes_Type list" where
  "USDSendSignTypes =
     [\<lparr>Name = ''hyperliquidChain'', Type = ''string''\<rparr>,
      \<lparr>Name = ''destination'', Type = ''string''\<rparr>,
      \<lparr>Name = ''amount'', Type = ''string''\<rparr>,
      \<lparr>Name = ''time'', Type = ''uint64''\<rparr>]"

definition SpotTransferSignTypes :: "apitypes_Type list" where
  "SpotTransferSignTypes =
     [\<lparr>Name = ''hyperliquidChain'', Type = ''string''\<rparr>,
      \<lparr>Name = ''destination'', Type = ''string''\<rparr>,
      \<lparr>Name = ''token'', Type = ''string''\<rparr>,
      \<lparr>Name = ''amount'', Type = ''string''\<rparr>,
      \<lparr>Name = ''time'', Type = ''uint64''\<rparr>]"

definition WithdrawSignTypes :: "apitypes_Type list" where
  "WithdrawSignTypes =
     [\<lparr>Name = ''hyperliquidChain'', Type = ''string''\<rparr>,
      \<lparr>Name = ''destination'', Type = ''string''\<rparr>,
      \<lparr>Name = ''amount'', Type = ''string''\<rparr>,
      \<lparr>Name = ''time'', Type = ''uint64''\<rparr>]"

definition USDClassTransferSignTypes :: "apitypes_Type list" where
  "USDClassTransferSignTypes =
     [\<lparr>Name = ''hyperliquidChain'', Type = ''string''\<rparr>,
      \<lparr>Name = ''amount'', Type = ''string''\<rparr>,
      \<lparr>Name = ''toPerp'', Type = ''bool''\<rparr>,
      \<lparr>Name = ''nonce'', Type = ''uint64''\<rparr>]"

definition SendAssetSignTypes :: "apitypes_Type list" where
  "SendAssetSignTypes =
     [\<lparr>Name = ''hyperliquidChain'', Type = ''string''\<rparr>,
      \<lparr>Name = ''destination'', Type = ''string''\<rparr>,
      \<lparr>Name = ''sourceDex'', Type = ''string''\<rparr>,
      \<lparr>Name = ''destinationDex'', Type = ''string''\<rparr>,
      \<lparr>Name = ''token'', Type = ''string''\<rparr>,
      \<lparr>Name = ''amount'', Type = ''string''\<rparr>,
      \<lparr>Name = ''fromSubAccount'', Type = ''string''\<rparr>,
      \<lparr>Name = ''nonce'', Type = ''uint64''\<rparr>]"

definition TokenDelegateTypes :: "apitypes_Type list" where
  "TokenDelegateTypes =
     [\<lparr>Name = ''hyperliquidChain'', Type = ''string''\<rparr>,
      \<lparr>Name = ''validator'', Type = ''address''\<rparr>,
      \<lparr>Name = ''wei'', Type = ''uint64''\<rparr>,
      \<lparr>Name = ''isUndelegate'', Type = ''bool''\<rparr>,
      \<lparr>Name = ''nonce'', Type = ''uint64''\<rparr>]"

definition ConvertToMultiSigUserSignTypes :: "apitypes_Type list" where
  "ConvertToMultiSigUserSignTypes =
     [\<lparr>Name = ''hyperliquidChain'', Type = ''string''\<rparr>,
      \<lparr>Name = ''signers'', Type = ''string''\<rparr>,
      \<lparr>Name = ''nonce'', Type = ''uint64''\<rparr>]"

definition MultiSigEnvelopeSignTypes :: "apitypes_Type list" where
  "MultiSigEnvelopeSignTypes =
     [\<lparr>Name = ''hyperliquidChain'', Type = ''string''\<rparr>,
      \<lparr>Name = ''multiSigActionHash'', Type = ''bytes32''\<rparr>,
      \<lparr>Name = ''nonce'', Type = ''uint64''\<rparr>]"


definition SignSpotTransferAction ::
  "'k crypto \<Rightarrow> 'k \<Rightarrow> gomap \<Rightarrow> bool \<Rightarrow> gomap \<times> (error + Signature)" where
  "SignSpotTransferAction L privateKey action isMainnet =
     SignUserSignedAction L privateKey action SpotTransferSignTypes
       ''HyperliquidTransaction:SpotSend'' isMainnet"

definition SignWithdrawFromBridgeAction ::
  "'k crypto \<Rightarrow> 'k \<Rightarrow> gomap \<Rightarrow> bool \<Rightarrow> gomap \<times> (error + Signature)" where
  "SignWithdrawFromBridgeAction L privateKey action isMainnet =
     SignUserSignedAction L privateKey action WithdrawSignTypes
       ''HyperliquidTransaction:Withdraw'' isMainnet"

definition SignUSDClassTransferAction ::
  "'k crypto \<Rightarrow> 'k \<Rightarrow> gomap \<Rightarrow> bool \<Rightarrow> gomap \<times> (error + Signature)" where
  "SignUSDClassTransferAction L privateKey action isMainnet =
     SignUserSignedAction L privateKey action USDClassTransferSignTypes
       ''HyperliquidTransaction:UsdClassTransfer'' isMainnet"

definition SignSendAssetAction ::
  "'k crypto \<Rightarrow> 'k \<Rightarrow> gomap \<Rightarrow> bool \<Rightarrow> gomap \<times> (error + Signature)" where
  "SignSendAssetAction L privateKey action isMainnet =
     SignUserSignedAction L privateKey action SendAssetSignTypes
       ''HyperliquidTransaction:SendAsset'' isMainnet"

definition SignConvertToMultiSigUserAction ::
  "'k crypto \<Rightarrow> 'k \<Rightarrow> gomap \<Rightarrow> bool \<Rightarrow> gomap \<times> (error + Signature)" where
  "SignConvertToMultiSigUserAction L privateKey action isMainnet =
     SignUserSignedAction L privateKey action ConvertToMultiSigUserSignTypes
       ''HyperliquidTransaction:ConvertToMultiSigUser'' isMainnet"

definition SignAgent ::
  "'k crypto \<Rightarrow> 'k \<Rightarrow> gomap \<Rightarrow> bool \<Rightarrow> gomap \<times> (error + Signature)" where
  "SignAgent L privateKey action isMainnet =
     (let agentSignTypes =
            [\<lparr>Name = ''hyperliquidChain'', Type = ''string''\<rparr>,
             \<lparr>Name = ''agentAddress'', Type = ''address''\<rparr>,
             \<lparr>Name = ''agentName'', Type = ''string''\<rparr>,
             \<lparr>Name = ''nonce'', Type = ''uint64''\<rparr>]
      in SignUserSignedAction L privateKey action agentSignTypes
           ''HyperliquidTransaction:ApproveAgent'' isMainnet)"

definition SignApproveBuilderFee ::
  "'k crypto \<Rightarrow> 'k \<Rightarrow> gomap \<Rightarrow> bool \<Rightarrow> gomap \<times> (error + Signature)" where
  "SignApproveBuilderFee L privateKey action isMainnet =
     (let builderFeeSignTypes =
            [\<lparr>Name = ''hyperliquidChain'', Type = ''string''\<rparr>,
             \<lparr>Name = ''maxFeeRate'', Type = ''string''\<rparr>,
             \<lparr>Name = ''builder'', Type = ''address''\<rparr>,
             \<lparr>Name = ''nonce'', Type = ''uint64''\<rparr>]
      in SignUserSignedAction L privateKey action builderFeeSignTypes
           ''HyperliquidTransaction:ApproveBuilderFee'' isMainnet)"

definition SignTokenDelegateAction ::
  "'k crypto \<Rightarrow> 'k \<Rightarrow> gomap \<Rightarrow> bool \<Rightarrow> gomap \<times> (error + Signature)" where
  "SignTokenDelegateAction L privateKey action isMainnet =
     SignUserSignedAction L privateKey action TokenDelegateTypes
       ''HyperliquidTransaction:TokenDelegate'' isMainnet"

section \<open>Reference definitions and stand-ins for concrete runs\<close>

text \<open>The big-endian encoding of an unsigned 64-bit number, as the specification words
  it: eight bytes, the most significant first.\<close>

definition big_endian_u64 :: "64 word \<Rightarrow> byte list" where
  "big_endian_u64 n = map (\<lambda>i. ucast (drop_bit (8 * (7 - i)) n)) [0..<8]"

text \<open>The string \<open>s\<close> writes the bytes \<open>bs\<close> in hexadecimal, two digits per byte,
  in either letter case.\<close>

fun hex_writing :: "string \<Rightarrow> byte list \<Rightarrow> bool" where
  "hex_writing [] [] = True"
| "hex_writing (p # q # s) (b # bs) =
     (fromHexChar p = Some (drop_bit 4 b) \<and> fromHexChar q = Some (b AND 0x0f) \<and>
      hex_writing s bs)"
| "hex_writing _ _ = False"

text \<open>The optional address string \<open>vaultAddress\<close> denotes the optional raw address
  \<open>vault\<close>: both absent, or the string, with or without the prefix \<^verbatim>\<open>0x\<close>,
  writes the bytes.\<close>

definition vault_bytes_of :: "string option \<Rightarrow> byte list option \<Rightarrow> bool" where
  "vault_bytes_of vaultAddress vault =
     (case vaultAddress of
        None \<Rightarrow> vault = None
      | Some v \<Rightarrow>
          (case vault of None \<Rightarrow> False | Some a \<Rightarrow> hex_writing (TrimPrefix v ''0x'') a))"

text \<open>A stand-in for the cryptographic library, to run the signing functions on
  concrete inputs: every struct hash is 32 bytes of \<^verbatim>\<open>0x11\<close>, the digest is the
  first 32 bytes of its input, and the signature of a digest is the digest twice followed
  by the recovery id 1. The private key is a unit value.\<close>

definition stub_crypto :: "unit crypto" where
  "stub_crypto =
     \<lparr>HashStruct = (\<lambda>data primaryType m. Inr (replicate 32 0x11)),
      Keccak256Hash = take 32,
      Sign = (\<lambda>hash key. Inr (hash @ hash @ [1]))\<rparr>"

text \<open>The USD transfer of the signing test, with a fixed time stamp.\<close>

definition usd_transfer_action :: gomap where
  "usd_transfer_action =
     [''destination'' \<mapsto> VString ''0x1234567890123456789012345678901234567890'',
      ''amount'' \<mapsto> VString ''1000000'',
      ''time'' \<mapsto> VUint64 1700000000000]"

section \<open>Properties of the hexadecimal codec\<close>

lemma high_nibble_less: "unat (drop_bit 4 (v::byte)) < 16"
proof -
  have "unat v < 256" using unsigned_less [of v] by simp
  then show ?thesis by (simp add: drop_bit_eq_div unat_div)
qed

lemma low_nibble_eq: "(v::byte) AND 0x0f = take_bit 4 v"
  by (simp add: take_bit_eq_mask mask_eq_exp_minus_1)

lemma low_nibble_less: "unat ((v::byte) AND 0x0f) < 16"
  by (simp add: low_nibble_eq take_bit_eq_mod unat_mod)

lemma fromHexChar_hextable_all:
  "list_all (\<lambda>n. fromHexChar (hextable ! n) = Some (of_nat n)) [0..<16]"
  by code_simp

lemma fromHexChar_hextable: "n < 16 \<Longrightarrow> fromHexChar (hextable ! n) = Some (of_nat n)"
  using fromHexChar_hextable_all by (simp add: list_all_iff)

lemma nibbles_recombine: "push_bit 4 (drop_bit 4 (v::byte)) OR (v AND 0x0f) = v"
  unfolding low_nibble_eq by (simp add: bit_eq_iff bit_simps) auto

lemma DecodeString_EncodeToString: "DecodeString (EncodeToString bs) = Inr bs"
  by (induction bs)
     (simp_all add: fromHexChar_hextable high_nibble_less low_nibble_less nibbles_recombine)

lemma length_EncodeToString: "length (EncodeToString bs) = 2 * length bs"
  by (induction bs) simp_all

lemma AddressToBytes_0x: "AddressToBytes (''0x'' @ EncodeToString bs) = Inr bs"
  by (simp add: AddressToBytes_def TrimPrefix_def DecodeString_EncodeToString)

lemma DecodeString_hex_writing: "hex_writing s bs \<Longrightarrow> DecodeString s = Inr bs"
  by (induction s bs rule: hex_writing.induct) (simp_all add: nibbles_recombine)

lemma hex_writing_EncodeToString: "hex_writing (EncodeToString bs) bs"
  by (induction bs) (simp_all add: fromHexChar_hextable high_nibble_less low_nibble_less)

lemma length_hex_writing: "hex_writing s bs \<Longrightarrow> length s = 2 * length bs"
  by (induction s bs rule: hex_writing.induct) simp_all

text \<open>The string that \<^verbatim>\<open>hexutil.Encode\<close> gives for an address denotes it.\<close>

lemma vault_bytes_of_hexutil_Encode: "vault_bytes_of (Some (hexutil_Encode a)) (Some a)"
  by (simp add: vault_bytes_of_def TrimPrefix_def hexutil_Encode_def hex_writing_EncodeToString)

section \<open>Numeric codec: the wire string\<close>





















lemma dec_format_100_5: "dec_format 8 100500000000000 = ''100.50000000''"
  by (simp add: dec_format_def round_half_even_def Let_def) (simp add: digits_of.simps)

lemma dec_parse_100_5: "dec_parse ''100.50000000'' = Inr 100500000000000"
  by (simp add: dec_parse_def strip_minus_def is_digit_def digits_value_def)

lemma FloatToWire_100_5: "FloatToWire decimal_lib 100500000000000 = Inr ''100.5''"
  by (simp add: FloatToWire_def decimal_lib_def dec_format_100_5 dec_parse_100_5 TrimRight_def)

lemma dec_format_tiny: "dec_format 8 1 = ''0.00000000''"
  by (simp add: dec_format_def round_half_even_def Let_def)
     (simp add: digits_of.simps, simp add: eval_nat_numeral)

lemma dec_format_tiny6: "dec_format 6 1 = ''0.000000''"
  by (simp add: dec_format_def round_half_even_def Let_def)
     (simp add: digits_of.simps, simp add: eval_nat_numeral)

lemma dec_parse_zero: "dec_parse ''0.00000000'' = Inr 0"
  by (simp add: dec_parse_def strip_minus_def is_digit_def digits_value_def)

lemma FloatToWire_tiny:
  "FloatToWire decimal_lib 1 = Inl (Errorf ''float_to_wire causes rounding: 0.000000'')"
  by (simp add: FloatToWire_def decimal_lib_def dec_format_tiny dec_format_tiny6 dec_parse_zero)


section \<open>Order types\<close>

text \<open>
  C4 (as amended). \<^verbatim>\<open>OrderTypeToWire\<close> fails with the error
  \<^verbatim>\<open>invalid order type\<close> when neither variant is present. Whenever the limit
  variant is present, with or without a trigger variant beside it, the result is the
  limit wire form. When only the trigger variant is present, the result is the trigger
  wire form with the trigger price encoded by \<^verbatim>\<open>FloatToWire\<close>, or the error of
  \<^verbatim>\<open>FloatToWire\<close> when the price cannot be encoded.
\<close>

theorem OrderTypeToWire_cases:
  "(Limit orderType = None \<and> Trigger orderType = None \<longrightarrow>
      OrderTypeToWire L orderType = Inl (Errorf ''invalid order type'')) \<and>
   (Limit orderType = Some l \<longrightarrow>
      OrderTypeToWire L orderType = Inr \<lparr>wLimit = Some l, wTrigger = None\<rparr>) \<and>
   (Limit orderType = None \<and> Trigger orderType = Some t \<and> FloatToWire L (TriggerPx t) = Inr px \<longrightarrow>
      OrderTypeToWire L orderType =
        Inr \<lparr>wLimit = None,
             wTrigger = Some \<lparr>wTriggerPx = px, wIsMarket = IsMarket t, wTPSL = TPSL t\<rparr>\<rparr>) \<and>
   (Limit orderType = None \<and> Trigger orderType = Some t \<and> FloatToWire L (TriggerPx t) = Inl e \<longrightarrow>
      OrderTypeToWire L orderType = Inl e)"
  by (simp add: OrderTypeToWire_def)

theorem OrderTypeToWire_cases_witness:
  "OrderTypeToWire decimal_lib \<lparr>Limit = None, Trigger = None\<rparr> = Inl (Errorf ''invalid order type'') \<and>
   OrderTypeToWire decimal_lib \<lparr>Limit = Some \<lparr>TIF = TIFGtc\<rparr>, Trigger = None\<rparr>
     = Inr \<lparr>wLimit = Some \<lparr>TIF = TIFGtc\<rparr>, wTrigger = None\<rparr> \<and>
   OrderTypeToWire decimal_lib
     \<lparr>Limit = None,
      Trigger = Some \<lparr>TriggerPx = 100500000000000, IsMarket = True, TPSL = TPSLTp\<rparr>\<rparr>
     = Inr \<lparr>wLimit = None,
            wTrigger = Some \<lparr>wTriggerPx = ''100.5'', wIsMarket = True, wTPSL = TPSLTp\<rparr>\<rparr> \<and>
   OrderTypeToWire decimal_lib
     \<lparr>Limit = None, Trigger = Some \<lparr>TriggerPx = 1, IsMarket = False, TPSL = TPSLSl\<rparr>\<rparr>
     = Inl (Errorf ''float_to_wire causes rounding: 0.000000'')"
  using
    OrderTypeToWire_cases [of "\<lparr>Limit = None, Trigger = None\<rparr>" decimal_lib]
    OrderTypeToWire_cases [of "\<lparr>Limit = Some \<lparr>TIF = TIFGtc\<rparr>, Trigger = None\<rparr>"
      decimal_lib "\<lparr>TIF = TIFGtc\<rparr>"]
    OrderTypeToWire_cases [of
      "\<lparr>Limit = None,
        Trigger = Some \<lparr>TriggerPx = 100500000000000, IsMarket = True, TPSL = TPSLTp\<rparr>\<rparr>"
      decimal_lib _ "\<lparr>TriggerPx = 100500000000000, IsMarket = True, TPSL = TPSLTp\<rparr>" "''100.5''"]
    OrderTypeToWire_cases [of
      "\<lparr>Limit = None, Trigger = Some \<lparr>TriggerPx = 1, IsMarket = False, TPSL = TPSLSl\<rparr>\<rparr>"
      decimal_lib _ "\<lparr>TriggerPx = 1, IsMarket = False, TPSL = TPSLSl\<rparr>" _
      "Errorf ''float_to_wire causes rounding: 0.000000''"]
  by (simp add: FloatToWire_100_5 FloatToWire_tiny)

text \<open>With both variants present the function does not fail: it returns the limit wire
  form.\<close>

theorem OrderTypeToWire_both_present:
  "OrderTypeToWire decimal_lib
     \<lparr>Limit = Some \<lparr>TIF = TIFGtc\<rparr>,
      Trigger = Some \<lparr>TriggerPx = 100500000000000, IsMarket = True, TPSL = TPSLTp\<rparr>\<rparr>
   = Inr \<lparr>wLimit = Some \<lparr>TIF = TIFGtc\<rparr>, wTrigger = None\<rparr>"
  by (simp add: OrderTypeToWire_def)

section \<open>Action hash: framing\<close>

lemma ucast_low_byte: "(ucast ((n::64 word) AND 0xff) :: byte) = ucast n"
proof -
  have "n AND 0xff = take_bit 8 n"
    by (simp add: take_bit_eq_mask mask_eq_exp_minus_1)
  then show ?thesis
    by (auto simp: bit_eq_iff bit_simps)
qed

lemma uint64_bytes_eq:
  "uint64_bytes n =
     [ucast (drop_bit 56 n), ucast (drop_bit 48 n), ucast (drop_bit 40 n), ucast (drop_bit 32 n),
      ucast (drop_bit 24 n), ucast (drop_bit 16 n), ucast (drop_bit 8 n), ucast n]"
  by (simp add: uint64_bytes_def eval_nat_numeral ucast_low_byte)

lemma upt_8: "[0..<8] = [0, 1, 2, 3, 4, 5, 6, 7::nat]"
  by code_simp

text \<open>The loop of the source writes the big-endian encoding.\<close>

lemma uint64_bytes_big_endian: "uint64_bytes n = big_endian_u64 n"
  by (simp add: uint64_bytes_eq big_endian_u64_def upt_8)

lemma unat_byte_of: "unat (ucast (drop_bit k (n::64 word)) :: byte) = unat n div 2 ^ k mod 256"
  by (simp add: unsigned_ucast_eq unat_drop_bit_eq take_bit_eq_mod) (simp add: drop_bit_eq_div)

lemma horner_step: "a div (b * 256) * 256 + a div b mod 256 = a div (b::nat)"
  by (simp add: div_mult2_eq)

text \<open>Read as a base-256 number, most significant byte first, the eight bytes are the
  number itself.\<close>

lemma big_endian_u64_value: "foldl (\<lambda>a b. 256 * a + unat b) 0 (big_endian_u64 n) = unat n"
proof -
  define N where "N = unat n"
  have lt: "N < 2 ^ 64" unfolding N_def using unsigned_less [of n] by simp
  have b0: "unat (ucast n :: byte) = N mod 256"
    using unat_byte_of [of 0 n] by (simp add: N_def)
  have s7: "N div 2^56 mod 256 = N div 2^56"
    using lt by (simp add: less_mult_imp_div_less)
  have s6: "N div 2^56 * 256 + N div 2^48 mod 256 = N div 2^48"
    using horner_step [of N "2^48"] by simp
  have s5: "N div 2^48 * 256 + N div 2^40 mod 256 = N div 2^40"
    using horner_step [of N "2^40"] by simp
  have s4: "N div 2^40 * 256 + N div 2^32 mod 256 = N div 2^32"
    using horner_step [of N "2^32"] by simp
  have s3: "N div 2^32 * 256 + N div 2^24 mod 256 = N div 2^24"
    using horner_step [of N "2^24"] by simp
  have s2: "N div 2^24 * 256 + N div 2^16 mod 256 = N div 2^16"
    using horner_step [of N "2^16"] by simp
  have s1: "N div 2^16 * 256 + N div 2^8 mod 256 = N div 2^8"
    using horner_step [of N "2^8"] by simp
  have s0: "N div 2^8 * 256 + N mod 256 = N"
    using horner_step [of N 1] by simp
  have "foldl (\<lambda>a b. 256 * a + unat b) 0 (uint64_bytes n) =
     ((((((N div 2^56 mod 256 * 256 + N div 2^48 mod 256) * 256 + N div 2^40 mod 256) * 256
       + N div 2^32 mod 256) * 256 + N div 2^24 mod 256) * 256 + N div 2^16 mod 256) * 256
       + N div 2^8 mod 256) * 256 + N mod 256"
    by (simp add: uint64_bytes_eq unat_byte_of b0 N_def [symmetric] algebra_simps)
  also have "\<dots> = N"
    by (simp only: s7 s6 s5 s4 s3 s2 s1 s0)
  finally show ?thesis by (simp add: N_def uint64_bytes_big_endian)
qed

lemma length_big_endian_u64: "length (big_endian_u64 n) = 8"
  by (simp add: big_endian_u64_def)

text \<open>
  C2. When the action serializes to \<open>data\<close> and the vault address, if any, is a
  hexadecimal address string, \<^verbatim>\<open>ActionHash\<close> returns the digest of \<open>data\<close>,
  followed by the nonce as eight big-endian bytes, followed by \<^verbatim>\<open>0x00\<close> when there
  is no vault address and by \<^verbatim>\<open>0x01\<close> and the raw bytes of the address when there
  is one, followed, only when an expiry is set, by \<^verbatim>\<open>0x00\<close> and the expiry as
  eight big-endian bytes. The serializer and the hash function are arbitrary.
\<close>

theorem ActionHash_framing:
  assumes "Marshal action = Inr data" and "vault_bytes_of vaultAddress vault"
  shows "ActionHash Marshal Keccak256 action vaultAddress nonce expires =
     Inr (Keccak256 (data @ big_endian_u64 nonce
            @ (case vault of None \<Rightarrow> [0x00] | Some a \<Rightarrow> 0x01 # a)
            @ (case expires of None \<Rightarrow> [] | Some e \<Rightarrow> 0x00 # big_endian_u64 e)))"
  using assms DecodeString_hex_writing
  by (auto simp: ActionHash_def vault_bytes_of_def AddressToBytes_def uint64_bytes_big_endian
      split: option.splits)

section \<open>Running the hash on an order action\<close>

lemma rotl64_eval: "rotl64 w n = (push_bit n w AND 0xFFFFFFFFFFFFFFFF) OR drop_bit (64 - n) w"
proof -
  have "(0xFFFFFFFFFFFFFFFF :: 64 word) = - 1" by simp
  then show ?thesis by (simp only: rotl64_def and.right_neutral)
qed

lemma theta_C_eval:
  "theta_C [a0, a1, a2, a3, a4, a5, a6, a7, a8, a9, a10, a11, a12, a13, a14, a15, a16, a17,
            a18, a19, a20, a21, a22, a23, a24]
   = [a0 XOR a5 XOR a10 XOR a15 XOR a20, a1 XOR a6 XOR a11 XOR a16 XOR a21,
      a2 XOR a7 XOR a12 XOR a17 XOR a22, a3 XOR a8 XOR a13 XOR a18 XOR a23,
      a4 XOR a9 XOR a14 XOR a19 XOR a24]"
  by (simp add: theta_C_def)

lemma theta_D_eval:
  "theta_D [c0, c1, c2, c3, c4]
   = [c4 XOR rotl64 c1 1, c0 XOR rotl64 c2 1, c1 XOR rotl64 c3 1, c2 XOR rotl64 c4 1,
      c3 XOR rotl64 c0 1]"
  by (simp add: theta_D_def)

lemma theta_apply_eval:
  "theta_apply [a0, a1, a2, a3, a4, a5, a6, a7, a8, a9, a10, a11, a12, a13, a14, a15, a16, a17,
                a18, a19, a20, a21, a22, a23, a24] [d0, d1, d2, d3, d4]
   = [a0 XOR d0, a1 XOR d1, a2 XOR d2, a3 XOR d3, a4 XOR d4,
      a5 XOR d0, a6 XOR d1, a7 XOR d2, a8 XOR d3, a9 XOR d4,
      a10 XOR d0, a11 XOR d1, a12 XOR d2, a13 XOR d3, a14 XOR d4,
      a15 XOR d0, a16 XOR d1, a17 XOR d2, a18 XOR d3, a19 XOR d4,
      a20 XOR d0, a21 XOR d1, a22 XOR d2, a23 XOR d3, a24 XOR d4]"
  by (simp add: theta_apply_def lane_index_def)

lemma rho_pi_eval:
  "rho_pi [a0, a1, a2, a3, a4, a5, a6, a7, a8, a9, a10, a11, a12, a13, a14, a15, a16, a17,
           a18, a19, a20, a21, a22, a23, a24]
   = [rotl64 a0 0, rotl64 a6 44, rotl64 a12 43, rotl64 a18 21, rotl64 a24 14,
      rotl64 a3 28, rotl64 a9 20, rotl64 a10 3, rotl64 a16 45, rotl64 a22 61,
      rotl64 a1 1, rotl64 a7 6, rotl64 a13 25, rotl64 a19 8, rotl64 a20 18,
      rotl64 a4 27, rotl64 a5 36, rotl64 a11 10, rotl64 a17 15, rotl64 a23 56,
      rotl64 a2 62, rotl64 a8 55, rotl64 a14 39, rotl64 a15 41, rotl64 a21 2]"
  by (simp add: rho_pi_def lane_index_def pi_source_def rho_offset_def)

lemma chi_eval:
  "chi [b0, b1, b2, b3, b4, b5, b6, b7, b8, b9, b10, b11, b12, b13, b14, b15, b16, b17,
        b18, b19, b20, b21, b22, b23, b24]
   = [b0 XOR (NOT b1 AND b2), b1 XOR (NOT b2 AND b3), b2 XOR (NOT b3 AND b4),
      b3 XOR (NOT b4 AND b0), b4 XOR (NOT b0 AND b1),
      b5 XOR (NOT b6 AND b7), b6 XOR (NOT b7 AND b8), b7 XOR (NOT b8 AND b9),
      b8 XOR (NOT b9 AND b5), b9 XOR (NOT b5 AND b6),
      b10 XOR (NOT b11 AND b12), b11 XOR (NOT b12 AND b13), b12 XOR (NOT b13 AND b14),
      b13 XOR (NOT b14 AND b10), b14 XOR (NOT b10 AND b11),
      b15 XOR (NOT b16 AND b17), b16 XOR (NOT b17 AND b18), b17 XOR (NOT b18 AND b19),
      b18 XOR (NOT b19 AND b15), b19 XOR (NOT b15 AND b16),
      b20 XOR (NOT b21 AND b22), b21 XOR (NOT b22 AND b23), b22 XOR (NOT b23 AND b24),
      b23 XOR (NOT b24 AND b20), b24 XOR (NOT b20 AND b21)]"
  by (simp add: chi_def lane_index_def)

lemma iota_eval: "iota rc (a0 # r) = (a0 XOR rc) # r"
  by (simp add: iota_def)

lemma replicate_numeral_eval: "replicate (numeral k) x = x # replicate (pred_numeral k) x"
  by (simp add: numeral_eq_Suc)

lemmas keccak_eval = LegacyKeccak256_def keccak_pad_def replicate_numeral_eval absorb_all.simps
  absorb_def keccak_f_def keccak_RC_def keccak_round_def theta_def theta_C_eval theta_D_eval
  theta_apply_eval rho_pi_eval chi_eval iota_eval rotl64_eval bytes_of_lane_def

text \<open>The digest always has 32 bytes.\<close>

lemma length_keccak_round: "length (keccak_round a rc) = 25"
  by (simp add: keccak_round_def iota_def chi_def lane_index_def)

lemma length_foldl_keccak_round:
  "length a = 25 \<Longrightarrow> length (foldl keccak_round a rcs) = 25"
  by (induction rcs arbitrary: a) (simp_all add: length_keccak_round)

lemma length_keccak_f: "length (keccak_f a) = 25"
  by (simp add: keccak_f_def keccak_RC_def length_foldl_keccak_round length_keccak_round)

lemma length_absorb_all: "length a = 25 \<Longrightarrow> length (absorb_all a bs) = 25"
proof (induction a bs rule: absorb_all.induct)
  case (1 a bs)
  show ?case
  proof (cases "bs = []")
    case True
    then show ?thesis using "1.prems" by (simp add: absorb_all.simps)
  next
    case False
    have "length (absorb a (take 136 bs)) = 25" by (simp add: absorb_def length_keccak_f)
    with False "1.IH" show ?thesis by (subst absorb_all.simps) simp
  qed
qed

lemma length_bytes_of_lane: "length (bytes_of_lane w) = 8"
  by (simp add: bytes_of_lane_def)

lemma length_concat_bytes_of_lane: "length (concat (map bytes_of_lane ws)) = 8 * length ws"
  by (induction ws) (simp_all add: length_bytes_of_lane)

lemma length_LegacyKeccak256: "length (LegacyKeccak256 data) = 32"
proof -
  have "length (absorb_all (replicate 25 0) (keccak_pad data)) = 25"
    by (rule length_absorb_all) simp
  then show ?thesis
    by (simp add: LegacyKeccak256_def length_concat_bytes_of_lane)
qed

text \<open>The empty order action, serialized with its three keys ranged over in two
  orders.\<close>

lemma EncodeMap_order_action_1:
  "EncodeMap encWire [''type'', ''orders'', ''grouping''] (OrderWiresToOrderAction [] None) =
   Inr [0x83, 0xa4, 0x74, 0x79, 0x70, 0x65, 0xa5, 0x6f, 0x72, 0x64, 0x65, 0x72,
        0xa6, 0x6f, 0x72, 0x64, 0x65, 0x72, 0x73, 0x90,
        0xa8, 0x67, 0x72, 0x6f, 0x75, 0x70, 0x69, 0x6e, 0x67, 0xa2, 0x6e, 0x61]"
  by (simp add: EncodeMap_def OrderWiresToOrderAction_def EncodeString_def encodeStringLen_def
      EncodeArrayLen_def EncodeMapLen_def)

lemma EncodeMap_order_action_2:
  "EncodeMap encWire [''grouping'', ''type'', ''orders''] (OrderWiresToOrderAction [] None) =
   Inr [0x83, 0xa8, 0x67, 0x72, 0x6f, 0x75, 0x70, 0x69, 0x6e, 0x67, 0xa2, 0x6e, 0x61,
        0xa4, 0x74, 0x79, 0x70, 0x65, 0xa5, 0x6f, 0x72, 0x64, 0x65, 0x72,
        0xa6, 0x6f, 0x72, 0x64, 0x65, 0x72, 0x73, 0x90]"
  by (simp add: EncodeMap_def OrderWiresToOrderAction_def EncodeString_def encodeStringLen_def
      EncodeArrayLen_def EncodeMapLen_def)

lemma big_endian_u64_12345: "big_endian_u64 12345 = [0, 0, 0, 0, 0, 0, 0x30, 0x39]"
  by (simp add: big_endian_u64_def upt_8)

lemma big_endian_u64_258: "big_endian_u64 258 = [0, 0, 0, 0, 0, 0, 1, 2]"
  by (simp add: big_endian_u64_def upt_8)

lemma dom_order_action:
  "dom (OrderWiresToOrderAction [] None) = {''type'', ''orders'', ''grouping''}"
  by (auto simp: OrderWiresToOrderAction_def split: if_splits)

lemma LegacyKeccak256_stream_1:
  "LegacyKeccak256
     [0x83, 0xa4, 0x74, 0x79, 0x70, 0x65, 0xa5, 0x6f, 0x72, 0x64, 0x65, 0x72,
      0xa6, 0x6f, 0x72, 0x64, 0x65, 0x72, 0x73, 0x90,
      0xa8, 0x67, 0x72, 0x6f, 0x75, 0x70, 0x69, 0x6e, 0x67, 0xa2, 0x6e, 0x61,
      0, 0, 0, 0, 0, 0, 0x30, 0x39, 0x00]
   = [0xd2, 0xe5, 0xfb, 0xfe, 0xd0, 0x91, 0x21, 0xcd, 0x15, 0xc0, 0x9c, 0x4d, 0x4b, 0xf5, 0x03,
      0x3c, 0xc7, 0x23, 0xfa, 0x1a, 0x4b, 0xe8, 0x4e, 0x40, 0xa1, 0xc6, 0x91, 0xe4, 0x5d, 0x54,
      0xb6, 0xd3]"
  by (simp add: keccak_eval)

lemma LegacyKeccak256_stream_2:
  "LegacyKeccak256
     [0x83, 0xa8, 0x67, 0x72, 0x6f, 0x75, 0x70, 0x69, 0x6e, 0x67, 0xa2, 0x6e, 0x61,
      0xa4, 0x74, 0x79, 0x70, 0x65, 0xa5, 0x6f, 0x72, 0x64, 0x65, 0x72,
      0xa6, 0x6f, 0x72, 0x64, 0x65, 0x72, 0x73, 0x90,
      0, 0, 0, 0, 0, 0, 0x30, 0x39, 0x00]
   = [0xc3, 0xef, 0x71, 0x11, 0x70, 0xad, 0x65, 0x3a, 0xd1, 0xce, 0x97, 0xad, 0x53, 0x8e, 0xfe,
      0xb5, 0x3c, 0x28, 0x7a, 0xb8, 0x66, 0xad, 0xf2, 0xb4, 0x1b, 0x9f, 0xb4, 0x51, 0x35, 0x3a,
      0xd0, 0x52]"
  by (simp add: keccak_eval)

lemma LegacyKeccak256_stream_3:
  "LegacyKeccak256
     [0x83, 0xa4, 0x74, 0x79, 0x70, 0x65, 0xa5, 0x6f, 0x72, 0x64, 0x65, 0x72,
      0xa6, 0x6f, 0x72, 0x64, 0x65, 0x72, 0x73, 0x90,
      0xa8, 0x67, 0x72, 0x6f, 0x75, 0x70, 0x69, 0x6e, 0x67, 0xa2, 0x6e, 0x61,
      0, 0, 0, 0, 0, 0, 0x30, 0x39,
      0x01, 0xab, 0xcd, 0xef, 0x78, 0x90, 0x12, 0x34, 0x56, 0x78, 0x90,
      0x12, 0x34, 0x56, 0x78, 0x90, 0x12, 0x34, 0x56, 0x78, 0x90,
      0x00, 0, 0, 0, 0, 0, 0, 1, 2]
   = [0x8a, 0x87, 0x8e, 0x2f, 0x4b, 0xa2, 0xa7, 0xb9, 0xd4, 0x87, 0x38, 0x10, 0x0e, 0x04, 0xa8,
      0xc3, 0xc7, 0x3a, 0x18, 0x08, 0x98, 0xa9, 0x66, 0x11, 0x88, 0xca, 0x20, 0x20, 0xf2, 0x54,
      0x3b, 0x73]"
  by (simp add: keccak_eval)

lemma vault_bytes_of_mixed_case:
  "vault_bytes_of (Some ''0xABcdef7890123456789012345678901234567890'')
     (Some [0xab, 0xcd, 0xef, 0x78, 0x90, 0x12, 0x34, 0x56, 0x78, 0x90,
            0x12, 0x34, 0x56, 0x78, 0x90, 0x12, 0x34, 0x56, 0x78, 0x90])"
  by (simp add: vault_bytes_of_def TrimPrefix_def fromHexChar_def)

theorem ActionHash_framing_witness:
  "EncodeMap (\<lambda>w. Inl (LibraryError [])) [''type'', ''orders'', ''grouping'']
       (OrderWiresToOrderAction [] None)
     = Inr [0x83, 0xa4, 0x74, 0x79, 0x70, 0x65, 0xa5, 0x6f, 0x72, 0x64, 0x65, 0x72,
            0xa6, 0x6f, 0x72, 0x64, 0x65, 0x72, 0x73, 0x90,
            0xa8, 0x67, 0x72, 0x6f, 0x75, 0x70, 0x69, 0x6e, 0x67, 0xa2, 0x6e, 0x61] \<and>
   vault_bytes_of (Some ''0xABcdef7890123456789012345678901234567890'')
     (Some [0xab, 0xcd, 0xef, 0x78, 0x90, 0x12, 0x34, 0x56, 0x78, 0x90,
            0x12, 0x34, 0x56, 0x78, 0x90, 0x12, 0x34, 0x56, 0x78, 0x90]) \<and>
   ActionHash (EncodeMap (\<lambda>w. Inl (LibraryError [])) [''type'', ''orders'', ''grouping''])
       LegacyKeccak256 (OrderWiresToOrderAction [] None)
       (Some ''0xABcdef7890123456789012345678901234567890'') 12345 (Some 258)
     = Inr [0x8a, 0x87, 0x8e, 0x2f, 0x4b, 0xa2, 0xa7, 0xb9, 0xd4, 0x87, 0x38, 0x10, 0x0e, 0x04,
            0xa8, 0xc3, 0xc7, 0x3a, 0x18, 0x08, 0x98, 0xa9, 0x66, 0x11, 0x88, 0xca, 0x20, 0x20,
            0xf2, 0x54, 0x3b, 0x73]"
proof -
  note m = EncodeMap_order_action_1 [of "\<lambda>w. Inl (LibraryError [])"]
  note v = vault_bytes_of_mixed_case
  have "ActionHash (EncodeMap (\<lambda>w. Inl (LibraryError [])) [''type'', ''orders'', ''grouping''])
       LegacyKeccak256 (OrderWiresToOrderAction [] None)
       (Some ''0xABcdef7890123456789012345678901234567890'') 12345 (Some 258)
     = Inr [0x8a, 0x87, 0x8e, 0x2f, 0x4b, 0xa2, 0xa7, 0xb9, 0xd4, 0x87, 0x38, 0x10, 0x0e, 0x04,
            0xa8, 0xc3, 0xc7, 0x3a, 0x18, 0x08, 0x98, 0xa9, 0x66, 0x11, 0x88, 0xca, 0x20, 0x20,
            0xf2, 0x54, 0x3b, 0x73]"
    using ActionHash_framing
      [of "EncodeMap (\<lambda>w. Inl (LibraryError [])) [''type'', ''orders'', ''grouping'']"
          "OrderWiresToOrderAction [] None" _ _ _ LegacyKeccak256 12345 "Some 258", OF m v]
    by (simp add: big_endian_u64_12345 big_endian_u64_258 LegacyKeccak256_stream_3)
  with m v show ?thesis by blast
qed

section \<open>Action hash: the order of the map keys\<close>

text \<open>
  C1. The hash of an action map is not a function of (action, nonce, vault address,
  expiry) alone. The action of \<^verbatim>\<open>OrderWiresToOrderAction\<close> is a Go map with three
  keys; the serializer ranges over it, and the runtime may hand out the keys in any
  order. For the empty order list, nonce 12345, no vault address and no expiry, two of
  the possible orders give two different 32-byte hashes. The map itself is the same map
  whichever way its keys were inserted, so no serializer can follow the order of
  insertion.
\<close>

theorem ActionHash_range_order:
  "range_order (OrderWiresToOrderAction [] None) [''type'', ''orders'', ''grouping''] \<and>
   range_order (OrderWiresToOrderAction [] None) [''grouping'', ''type'', ''orders''] \<and>
   ActionHash (EncodeMap encWire [''type'', ''orders'', ''grouping'']) LegacyKeccak256
       (OrderWiresToOrderAction [] None) None 12345 None
     = Inr [0xd2, 0xe5, 0xfb, 0xfe, 0xd0, 0x91, 0x21, 0xcd, 0x15, 0xc0, 0x9c, 0x4d, 0x4b, 0xf5,
            0x03, 0x3c, 0xc7, 0x23, 0xfa, 0x1a, 0x4b, 0xe8, 0x4e, 0x40, 0xa1, 0xc6, 0x91, 0xe4,
            0x5d, 0x54, 0xb6, 0xd3] \<and>
   ActionHash (EncodeMap encWire [''grouping'', ''type'', ''orders'']) LegacyKeccak256
       (OrderWiresToOrderAction [] None) None 12345 None
     = Inr [0xc3, 0xef, 0x71, 0x11, 0x70, 0xad, 0x65, 0x3a, 0xd1, 0xce, 0x97, 0xad, 0x53, 0x8e,
            0xfe, 0xb5, 0x3c, 0x28, 0x7a, 0xb8, 0x66, 0xad, 0xf2, 0xb4, 0x1b, 0x9f, 0xb4, 0x51,
            0x35, 0x3a, 0xd0, 0x52] \<and>
   ActionHash (EncodeMap encWire [''type'', ''orders'', ''grouping'']) LegacyKeccak256
       (OrderWiresToOrderAction [] None) None 12345 None
     \<noteq> ActionHash (EncodeMap encWire [''grouping'', ''type'', ''orders'']) LegacyKeccak256
       (OrderWiresToOrderAction [] None) None 12345 None \<and>
   OrderWiresToOrderAction [] None
     = [''grouping'' \<mapsto> VString ''na'', ''orders'' \<mapsto> VOrderWires [],
        ''type'' \<mapsto> VString ''order'']"
proof -
  have r1: "range_order (OrderWiresToOrderAction [] None) [''type'', ''orders'', ''grouping'']"
    by (simp add: range_order_def dom_order_action)
  have r2: "range_order (OrderWiresToOrderAction [] None) [''grouping'', ''type'', ''orders'']"
    by (simp add: range_order_def dom_order_action) auto
  have h1: "ActionHash (EncodeMap encWire [''type'', ''orders'', ''grouping'']) LegacyKeccak256
       (OrderWiresToOrderAction [] None) None 12345 None
     = Inr [0xd2, 0xe5, 0xfb, 0xfe, 0xd0, 0x91, 0x21, 0xcd, 0x15, 0xc0, 0x9c, 0x4d, 0x4b, 0xf5,
            0x03, 0x3c, 0xc7, 0x23, 0xfa, 0x1a, 0x4b, 0xe8, 0x4e, 0x40, 0xa1, 0xc6, 0x91, 0xe4,
            0x5d, 0x54, 0xb6, 0xd3]"
    by (simp add: ActionHash_def EncodeMap_order_action_1
        uint64_bytes_big_endian big_endian_u64_12345 LegacyKeccak256_stream_1)
  have h2: "ActionHash (EncodeMap encWire [''grouping'', ''type'', ''orders'']) LegacyKeccak256
       (OrderWiresToOrderAction [] None) None 12345 None
     = Inr [0xc3, 0xef, 0x71, 0x11, 0x70, 0xad, 0x65, 0x3a, 0xd1, 0xce, 0x97, 0xad, 0x53, 0x8e,
            0xfe, 0xb5, 0x3c, 0x28, 0x7a, 0xb8, 0x66, 0xad, 0xf2, 0xb4, 0x1b, 0x9f, 0xb4, 0x51,
            0x35, 0x3a, 0xd0, 0x52]"
    by (simp add: ActionHash_def EncodeMap_order_action_2
        uint64_bytes_big_endian big_endian_u64_12345 LegacyKeccak256_stream_2)
  have ne: "ActionHash (EncodeMap encWire [''type'', ''orders'', ''grouping'']) LegacyKeccak256
       (OrderWiresToOrderAction [] None) None 12345 None
     \<noteq> ActionHash (EncodeMap encWire [''grouping'', ''type'', ''orders'']) LegacyKeccak256
       (OrderWiresToOrderAction [] None) None 12345 None"
    unfolding h1 h2 by simp
  have m: "OrderWiresToOrderAction [] None
     = [''grouping'' \<mapsto> VString ''na'', ''orders'' \<mapsto> VOrderWires [],
        ''type'' \<mapsto> VString ''order'']"
    by (rule ext) (simp add: OrderWiresToOrderAction_def)
  from r1 r2 h1 h2 ne m show ?thesis by blast
qed

section \<open>Phantom agent and L1 payload: properties\<close>

text \<open>
  C7. For every hash and network flag, \<^verbatim>\<open>ConstructPhantomAgent\<close> gives the source
  \<^verbatim>\<open>a\<close> on mainnet and \<^verbatim>\<open>b\<close> on testnet, and a connection id that is
  \<^verbatim>\<open>0x\<close> followed by two hexadecimal digits per byte of the hash, from which the
  hash bytes are read back exactly. \<^verbatim>\<open>L1Payload\<close> puts that agent into typed data
  with the domain (Exchange, 1, 1337, zero address), the primary type Agent, and the
  Agent schema (source: string, connectionId: bytes32).
\<close>

theorem phantom_agent_payload:
  "Source (ConstructPhantomAgent hash True) = ''a'' \<and>
   Source (ConstructPhantomAgent hash False) = ''b'' \<and>
   ConnectionID (ConstructPhantomAgent hash isMainnet) = ''0x'' @ EncodeToString hash \<and>
   length (ConnectionID (ConstructPhantomAgent hash isMainnet)) = 2 + 2 * length hash \<and>
   AddressToBytes (ConnectionID (ConstructPhantomAgent hash isMainnet)) = Inr hash \<and>
   Domain' (L1Payload (ConstructPhantomAgent hash isMainnet)) =
     \<lparr>DomainName = ''Exchange'', Version = ''1'', ChainId = Some 1337,
      VerifyingContract = ''0x0000000000000000000000000000000000000000''\<rparr> \<and>
   PrimaryType (L1Payload (ConstructPhantomAgent hash isMainnet)) = ''Agent'' \<and>
   Types (L1Payload (ConstructPhantomAgent hash isMainnet)) ''Agent'' =
     Some [\<lparr>Name = ''source'', Type = ''string''\<rparr>,
           \<lparr>Name = ''connectionId'', Type = ''bytes32''\<rparr>] \<and>
   Message (L1Payload (ConstructPhantomAgent hash isMainnet)) =
     [''source'' \<mapsto> VString (if isMainnet then ''a'' else ''b''),
      ''connectionId'' \<mapsto> VString (''0x'' @ EncodeToString hash)]"
  using AddressToBytes_0x [of hash]
  by (simp add: ConstructPhantomAgent_def L1Payload_def hexutil_Encode_def zero_address_def
      length_EncodeToString)

section \<open>Order actions: properties\<close>

text \<open>
  C10. For every list of order wires and every optional builder string,
  \<^verbatim>\<open>OrderWiresToOrderAction\<close> returns a map whose type is \<^verbatim>\<open>order\<close>, whose
  orders are the given list, whose grouping is \<^verbatim>\<open>na\<close> and neither of the two TPSL
  tags, and whose key \<^verbatim>\<open>builder\<close> is present exactly when a builder was given,
  holding that string; the map has no other key.
\<close>

theorem OrderWiresToOrderAction_shape:
  "OrderWiresToOrderAction orderWires builder ''type'' = Some (VString ''order'') \<and>
   OrderWiresToOrderAction orderWires builder ''orders'' = Some (VOrderWires orderWires) \<and>
   OrderWiresToOrderAction orderWires builder ''grouping'' = Some (VString GroupingNA) \<and>
   OrderWiresToOrderAction orderWires builder ''grouping'' \<noteq> Some (VString GroupingNormalTpsl) \<and>
   OrderWiresToOrderAction orderWires builder ''grouping'' \<noteq> Some (VString GroupingPositionTpsl) \<and>
   OrderWiresToOrderAction orderWires builder ''builder'' = map_option VString builder \<and>
   (''builder'' \<in> dom (OrderWiresToOrderAction orderWires builder)) = (builder \<noteq> None) \<and>
   dom (OrderWiresToOrderAction orderWires builder) =
     {''type'', ''orders'', ''grouping''} \<union> (if builder = None then {} else {''builder''})"
  by (cases builder)
     (auto simp: OrderWiresToOrderAction_def GroupingNA_def GroupingNormalTpsl_def
        GroupingPositionTpsl_def split: if_splits)

section \<open>Signing a typed-data structure\<close>

text \<open>
  C6. Suppose the struct hashes of the domain and of the message are
  \<open>domainSeparator\<close> and \<open>messageHash\<close>, and the signing primitive, on the digest of
  \<^verbatim>\<open>0x19 0x01\<close> followed by these two hashes, returns 65 bytes whose last byte (the
  recovery id) is 0 or 1. Then \<^verbatim>\<open>SignInner\<close> succeeds; \<open>r\<close> and \<open>s\<close> are the
  \<^verbatim>\<open>0x\<close> hexadecimal strings (66 characters) of bytes 0 to 31 and 32 to 63 of the
  signature; and \<open>v\<close> is the recovery id plus 27, hence 27 or 28.
\<close>

theorem SignInner_signature:
  assumes "HashStruct L data ''EIP712Domain'' (Domain_Map (Domain' data)) = Inr domainSeparator"
    and "HashStruct L data (PrimaryType data) (Message data) = Inr messageHash"
    and "Sign L (Keccak256Hash L ([0x19, 0x01] @ domainSeparator @ messageHash)) privateKey
           = Inr signature"
    and "length signature = 65"
    and "signature ! 64 = 0 \<or> signature ! 64 = 1"
  shows "\<exists>sg. SignInner L privateKey data = Inr sg \<and>
     sigR sg = ''0x'' @ EncodeToString (take 32 signature) \<and>
     sigS sg = ''0x'' @ EncodeToString (take 32 (drop 32 signature)) \<and>
     length (sigR sg) = 66 \<and> length (sigS sg) = 66 \<and>
     AddressToBytes (sigR sg) = Inr (take 32 signature) \<and>
     AddressToBytes (sigS sg) = Inr (take 32 (drop 32 signature)) \<and>
     sigV sg = signature ! 64 + 27 \<and> (sigV sg = 27 \<or> sigV sg = 28)"
  using assms AddressToBytes_0x [of "take 32 signature"]
    AddressToBytes_0x [of "take 32 (drop 32 signature)"]
  by (auto simp: SignInner_def hexutil_Encode_def length_EncodeToString)

theorem SignInner_signature_witness:
  "HashStruct stub_crypto (L1Payload (ConstructPhantomAgent [1, 2, 3, 4] True)) ''EIP712Domain''
      (Domain_Map (Domain' (L1Payload (ConstructPhantomAgent [1, 2, 3, 4] True))))
     = Inr (replicate 32 0x11) \<and>
   Sign stub_crypto
      (Keccak256Hash stub_crypto ([0x19, 0x01] @ replicate 32 0x11 @ replicate 32 0x11)) ()
     = Inr ((0x19 # 0x01 # replicate 30 0x11) @ (0x19 # 0x01 # replicate 30 0x11) @ [1]) \<and>
   (\<exists>sg. SignInner stub_crypto () (L1Payload (ConstructPhantomAgent [1, 2, 3, 4] True)) = Inr sg \<and>
      sigR sg = ''0x'' @ EncodeToString (0x19 # 0x01 # replicate 30 0x11) \<and>
      sigV sg = 28 \<and> length (sigR sg) = 66 \<and> length (sigS sg) = 66)"
  using SignInner_signature [of stub_crypto "L1Payload (ConstructPhantomAgent [1, 2, 3, 4] True)"
      "replicate 32 0x11" "replicate 32 0x11" "()"
      "(0x19 # 0x01 # replicate 30 0x11) @ (0x19 # 0x01 # replicate 30 0x11) @ [1]"]
  by (simp add: stub_crypto_def nth_append) blast

section \<open>User-signed actions: the typed data\<close>

lemma ParseInt0_chain_id: "ParseInt0 ''0x66eee'' = Inr 421614"
  by (simp add: ParseInt0_def ParseUint0_def lower_def is_digit_def Let_def)

lemma ParseInt0_1337: "ParseInt0 ''1337'' = Inr 1337"
  by (simp add: ParseInt0_def ParseUint0_def lower_def is_digit_def Let_def)

lemma ParseInt0_mainnet: "ParseInt0 ''mainnet'' = Inl (ErrSyntax ''mainnet'')"
  by (simp add: ParseInt0_def ParseUint0_def lower_def is_digit_def Let_def)

text \<open>
  C5. For every schema and primary type (every kind of user-signed action is a call of
  \<^verbatim>\<open>SignUserSignedAction\<close> with its own pair), the typed data that
  \<^verbatim>\<open>SignUserSignedAction\<close> signs carries \<^verbatim>\<open>signatureChainId = "0x66eee"\<close> and
  \<^verbatim>\<open>hyperliquidChain\<close> = \<^verbatim>\<open>Mainnet\<close> or \<^verbatim>\<open>Testnet\<close> in its message, next to
  the other fields of the action, and has the domain (HyperliquidSignTransaction, 1,
  chain id 0x66eee = 421614, zero address). In general \<^verbatim>\<open>UserSignedPayload\<close> takes
  the chain id of the domain from parsing the \<^verbatim>\<open>signatureChainId\<close> of the action
  map; it fails with the parser's error when that string does not parse, and with
  \<^verbatim>\<open>signatureChainId not found or not string\<close> when the key is absent or holds no
  string.
\<close>

theorem user_signed_typed_data:
  "(\<exists>data. UserSignedPayload primaryType payloadTypes
              (fst (SignUserSignedAction L privateKey action payloadTypes primaryType isMainnet))
            = Inr data \<and>
        snd (SignUserSignedAction L privateKey action payloadTypes primaryType isMainnet)
          = SignInner L privateKey data \<and>
        Message data ''signatureChainId'' = Some (VString ''0x66eee'') \<and>
        Message data ''hyperliquidChain''
          = Some (VString (if isMainnet then ''Mainnet'' else ''Testnet'')) \<and>
        (\<forall>k. k \<noteq> ''signatureChainId'' \<and> k \<noteq> ''hyperliquidChain'' \<longrightarrow> Message data k = action k) \<and>
        PrimaryType data = primaryType \<and>
        Types data primaryType = Some payloadTypes \<and>
        Domain' data = \<lparr>DomainName = ''HyperliquidSignTransaction'', Version = ''1'',
                        ChainId = Some 0x66eee,
                        VerifyingContract = ''0x0000000000000000000000000000000000000000''\<rparr>) \<and>
   (a ''signatureChainId'' = Some (VString s) \<and> ParseInt0 s = Inr c \<longrightarrow>
      (\<exists>data. UserSignedPayload primaryType payloadTypes a = Inr data \<and>
         Message data = a \<and>
         Domain' data = \<lparr>DomainName = ''HyperliquidSignTransaction'', Version = ''1'',
                         ChainId = Some c,
                         VerifyingContract = ''0x0000000000000000000000000000000000000000''\<rparr>)) \<and>
   (a ''signatureChainId'' = Some (VString s) \<and> ParseInt0 s = Inl e \<longrightarrow>
      UserSignedPayload primaryType payloadTypes a = Inl e) \<and>
   ((\<forall>t. a ''signatureChainId'' \<noteq> Some (VString t)) \<longrightarrow>
      UserSignedPayload primaryType payloadTypes a
        = Inl (Errorf ''signatureChainId not found or not string''))"
proof (intro conjI)
  show "\<exists>data. UserSignedPayload primaryType payloadTypes
              (fst (SignUserSignedAction L privateKey action payloadTypes primaryType isMainnet))
            = Inr data \<and>
        snd (SignUserSignedAction L privateKey action payloadTypes primaryType isMainnet)
          = SignInner L privateKey data \<and>
        Message data ''signatureChainId'' = Some (VString ''0x66eee'') \<and>
        Message data ''hyperliquidChain''
          = Some (VString (if isMainnet then ''Mainnet'' else ''Testnet'')) \<and>
        (\<forall>k. k \<noteq> ''signatureChainId'' \<and> k \<noteq> ''hyperliquidChain'' \<longrightarrow> Message data k = action k) \<and>
        PrimaryType data = primaryType \<and>
        Types data primaryType = Some payloadTypes \<and>
        Domain' data = \<lparr>DomainName = ''HyperliquidSignTransaction'', Version = ''1'',
                        ChainId = Some 0x66eee,
                        VerifyingContract = ''0x0000000000000000000000000000000000000000''\<rparr>"
    by (cases isMainnet)
       (simp_all add: SignUserSignedAction_def UserSignedPayload_def ParseInt0_chain_id
          zero_address_def Let_def)
next
  show "a ''signatureChainId'' = Some (VString s) \<and> ParseInt0 s = Inr c \<longrightarrow>
      (\<exists>data. UserSignedPayload primaryType payloadTypes a = Inr data \<and>
         Message data = a \<and>
         Domain' data = \<lparr>DomainName = ''HyperliquidSignTransaction'', Version = ''1'',
                         ChainId = Some c,
                         VerifyingContract = ''0x0000000000000000000000000000000000000000''\<rparr>)"
    by (simp add: UserSignedPayload_def zero_address_def)
next
  show "a ''signatureChainId'' = Some (VString s) \<and> ParseInt0 s = Inl e \<longrightarrow>
      UserSignedPayload primaryType payloadTypes a = Inl e"
    by (simp add: UserSignedPayload_def)
next
  show "(\<forall>t. a ''signatureChainId'' \<noteq> Some (VString t)) \<longrightarrow>
      UserSignedPayload primaryType payloadTypes a
        = Inl (Errorf ''signatureChainId not found or not string'')"
    by (auto simp: UserSignedPayload_def split: option.splits anyval.splits)
qed

theorem user_signed_typed_data_witness:
  "(\<exists>data. UserSignedPayload ''HyperliquidTransaction:UsdSend'' USDSendSignTypes
             (fst (SignUserSignedAction stub_crypto () usd_transfer_action USDSendSignTypes
                     ''HyperliquidTransaction:UsdSend'' False)) = Inr data \<and>
           Message data ''signatureChainId'' = Some (VString ''0x66eee'') \<and>
           Message data ''hyperliquidChain'' = Some (VString ''Testnet'') \<and>
           Message data ''amount'' = Some (VString ''1000000'') \<and>
           ChainId (Domain' data) = Some 421614) \<and>
   (\<exists>data. UserSignedPayload ''HyperliquidTransaction:UsdSend'' USDSendSignTypes
             (usd_transfer_action(''signatureChainId'' \<mapsto> VString ''1337'')) = Inr data \<and>
           ChainId (Domain' data) = Some 1337) \<and>
   UserSignedPayload ''HyperliquidTransaction:UsdSend'' USDSendSignTypes
       (usd_transfer_action(''signatureChainId'' \<mapsto> VString ''mainnet''))
     = Inl (ErrSyntax ''mainnet'') \<and>
   UserSignedPayload ''HyperliquidTransaction:UsdSend'' USDSendSignTypes usd_transfer_action
     = Inl (Errorf ''signatureChainId not found or not string'')"
proof -
  let ?pt = "''HyperliquidTransaction:UsdSend''"
  note t1 = user_signed_typed_data [of ?pt USDSendSignTypes stub_crypto "()" usd_transfer_action False
      "usd_transfer_action(''signatureChainId'' \<mapsto> VString ''1337'')" "''1337''" 1337]
  note t2 = user_signed_typed_data [of ?pt USDSendSignTypes stub_crypto "()" usd_transfer_action False
      "usd_transfer_action(''signatureChainId'' \<mapsto> VString ''mainnet'')" "''mainnet''" _
      "ErrSyntax ''mainnet''"]
  note t3 = user_signed_typed_data [of ?pt USDSendSignTypes stub_crypto "()" usd_transfer_action False
      usd_transfer_action]
  note p1 = t1 [THEN conjunct1]
  note p2 = t1 [THEN conjunct2, THEN conjunct1]
  note p3 = t2 [THEN conjunct2, THEN conjunct2, THEN conjunct1]
  note p4 = t3 [THEN conjunct2, THEN conjunct2, THEN conjunct2]
  have c1: "\<exists>data. UserSignedPayload ?pt USDSendSignTypes
             (fst (SignUserSignedAction stub_crypto () usd_transfer_action USDSendSignTypes
                     ?pt False)) = Inr data \<and>
           Message data ''signatureChainId'' = Some (VString ''0x66eee'') \<and>
           Message data ''hyperliquidChain'' = Some (VString ''Testnet'') \<and>
           Message data ''amount'' = Some (VString ''1000000'') \<and>
           ChainId (Domain' data) = Some 421614"
  proof -
    from p1 obtain data where d: "UserSignedPayload ?pt USDSendSignTypes
          (fst (SignUserSignedAction stub_crypto () usd_transfer_action USDSendSignTypes ?pt False))
          = Inr data"
        "Message data ''signatureChainId'' = Some (VString ''0x66eee'')"
        "Message data ''hyperliquidChain'' = Some (VString (if False then ''Mainnet'' else ''Testnet''))"
        "\<forall>k. k \<noteq> ''signatureChainId'' \<and> k \<noteq> ''hyperliquidChain'' \<longrightarrow>
             Message data k = usd_transfer_action k"
        "Domain' data = \<lparr>DomainName = ''HyperliquidSignTransaction'', Version = ''1'',
                        ChainId = Some 0x66eee,
                        VerifyingContract = ''0x0000000000000000000000000000000000000000''\<rparr>"
      by blast
    from d(4) have "Message data ''amount'' = usd_transfer_action ''amount''" by simp
    then have am: "Message data ''amount'' = Some (VString ''1000000'')"
      by (simp add: usd_transfer_action_def)
    from d(3) have ch: "Message data ''hyperliquidChain'' = Some (VString ''Testnet'')" by simp
    from d(5) have ci: "ChainId (Domain' data) = Some 421614" by simp
    from d(1) d(2) ch am ci show ?thesis by blast
  qed
  have "\<exists>data. UserSignedPayload ?pt USDSendSignTypes
             (usd_transfer_action(''signatureChainId'' \<mapsto> VString ''1337'')) = Inr data \<and>
           Message data = usd_transfer_action(''signatureChainId'' \<mapsto> VString ''1337'') \<and>
           Domain' data = \<lparr>DomainName = ''HyperliquidSignTransaction'', Version = ''1'',
                        ChainId = Some 1337,
                        VerifyingContract = ''0x0000000000000000000000000000000000000000''\<rparr>"
    using p2 by (simp add: ParseInt0_1337)
  then obtain data2 where "UserSignedPayload ?pt USDSendSignTypes
             (usd_transfer_action(''signatureChainId'' \<mapsto> VString ''1337'')) = Inr data2"
      "ChainId (Domain' data2) = Some 1337"
    by force
  then have c2: "\<exists>data. UserSignedPayload ?pt USDSendSignTypes
             (usd_transfer_action(''signatureChainId'' \<mapsto> VString ''1337'')) = Inr data \<and>
           ChainId (Domain' data) = Some 1337"
    by blast
  have c3: "UserSignedPayload ?pt USDSendSignTypes
       (usd_transfer_action(''signatureChainId'' \<mapsto> VString ''mainnet''))
     = Inl (ErrSyntax ''mainnet'')"
    using p3 by (simp add: ParseInt0_mainnet)
  have c4: "UserSignedPayload ?pt USDSendSignTypes usd_transfer_action
     = Inl (Errorf ''signatureChainId not found or not string'')"
    using p4 by (simp add: usd_transfer_action_def)
  from c1 c2 c3 c4 show ?thesis by blast
qed

section \<open>What signing does to the caller's action\<close>



end
